theory Spec2Isabelle
  imports Complex_Main "HOL-Library.AList"
begin

section \<open>Ambient sources: random numbers, identifiers, clock\<close>

text \<open>
  The Python code draws from the module-level generator \<^verbatim>\<open>random\<close>, from
  \<^verbatim>\<open>uuid.uuid4()\<close> and from \<^verbatim>\<open>datetime.now()\<close>. Each ambient source is a
  stream of the values its successive calls return; a call takes the head and leaves the
  tail. Floats are idealised as reals throughout.
\<close>

type_synonym 'a src = "nat \<Rightarrow> 'a"

type_synonym rng = "real src"

definition take_src :: "'a src \<Rightarrow> 'a \<times> 'a src" where
  "take_src g = (g 0, \<lambda>n. g (Suc n))"

text \<open>\<^verbatim>\<open>random.random()\<close>: the next value of the stream, in the half-open unit interval.\<close>

definition random_random :: "rng \<Rightarrow> real \<times> rng" where
  "random_random g = take_src g"

text \<open>\<^verbatim>\<open>random.uniform(a, b)\<close> is \<^verbatim>\<open>a + (b - a) * self.random()\<close> in CPython.\<close>

definition random_uniform :: "real \<Rightarrow> real \<Rightarrow> rng \<Rightarrow> real \<times> rng" where
  "random_uniform a b g = (case random_random g of (u, g') \<Rightarrow> (a + (b - a) * u, g'))"

text \<open>
  The value \<^verbatim>\<open>random.uniform\<close> returns on the range \<open>r\<close> when its
  \<^verbatim>\<open>random.random()\<close> returns \<open>u\<close>.
\<close>

definition uniform_value :: "real \<times> real \<Rightarrow> real \<Rightarrow> real" where
  "uniform_value r u = fst r + (snd r - fst r) * u"

definition unit_draws :: "rng \<Rightarrow> bool" where
  "unit_draws g = (\<forall>i. 0 \<le> g i \<and> g i < 1)"

section \<open>Economic cycle (core/advanced_market.py)\<close>

datatype MarketPhase = GROWTH | RECESSION | RECOVERY | BOOM | STAGNATION

record EconomicCycleSimulator =
  current_phase :: MarketPhase
  phase_duration :: int
  interest_rates :: real
  inflation_rate :: real
  unemployment_rate :: real
  gdp_growth :: real
  market_volatility :: real
  tech_sector_performance :: real

text \<open>\<^verbatim>\<open>EconomicCycleSimulator.__init__\<close>\<close>

definition EconomicCycleSimulator_init :: EconomicCycleSimulator where
  "EconomicCycleSimulator_init =
     \<lparr>current_phase = GROWTH, phase_duration = 0, interest_rates = 0.05,
      inflation_rate = 0.03, unemployment_rate = 0.04, gdp_growth = 0.025,
      market_volatility = 0.1, tech_sector_performance = 0.8\<rparr>"

text \<open>
  \<^verbatim>\<open>_update_economic_indicators\<close>: four draws, in the order growth, unemployment,
  interest, sector performance, with the literal ranges of the branch of the current phase.
\<close>

definition draw_indicators ::
  "real \<times> real \<Rightarrow> real \<times> real \<Rightarrow> real \<times> real \<Rightarrow> real \<times> real \<Rightarrow>
   EconomicCycleSimulator \<Rightarrow> rng \<Rightarrow> EconomicCycleSimulator \<times> rng" where
  "draw_indicators gd un ir ts self g =
     (case random_uniform (fst gd) (snd gd) g of (v1, g1) \<Rightarrow>
      case random_uniform (fst un) (snd un) g1 of (v2, g2) \<Rightarrow>
      case random_uniform (fst ir) (snd ir) g2 of (v3, g3) \<Rightarrow>
      case random_uniform (fst ts) (snd ts) g3 of (v4, g4) \<Rightarrow>
        (self\<lparr>gdp_growth := v1, unemployment_rate := v2, interest_rates := v3,
              tech_sector_performance := v4\<rparr>, g4))"

definition update_economic_indicators ::
  "EconomicCycleSimulator \<Rightarrow> rng \<Rightarrow> EconomicCycleSimulator \<times> rng" where
  "update_economic_indicators self g =
     (if current_phase self = GROWTH then
        draw_indicators (0.02, 0.04) (0.03, 0.06) (0.02, 0.06) (0.7, 0.9) self g
      else if current_phase self = BOOM then
        draw_indicators (0.04, 0.07) (0.02, 0.04) (0.01, 0.04) (0.8, 1.0) self g
      else if current_phase self = RECESSION then
        draw_indicators (-0.03, 0.01) (0.06, 0.12) (0.00, 0.02) (0.3, 0.6) self g
      else if current_phase self = RECOVERY then
        draw_indicators (0.01, 0.03) (0.05, 0.08) (0.01, 0.03) (0.6, 0.8) self g
      else if current_phase self = STAGNATION then
        draw_indicators (-0.01, 0.01) (0.05, 0.07) (0.02, 0.04) (0.5, 0.7) self g
      else (self, g))"

text \<open>
  The phase-transition step of \<^verbatim>\<open>advance_cycle\<close>: one \<^verbatim>\<open>random.random()\<close> is
  drawn only in the branch whose duration threshold is passed.
\<close>

definition try_transition ::
  "real \<Rightarrow> MarketPhase \<Rightarrow> EconomicCycleSimulator \<Rightarrow> rng \<Rightarrow> EconomicCycleSimulator \<times> rng" where
  "try_transition prob nxt self g =
     (case random_random g of (r, g') \<Rightarrow>
        if r < prob then (self\<lparr>current_phase := nxt, phase_duration := 0\<rparr>, g')
        else (self, g'))"

definition phase_transition ::
  "EconomicCycleSimulator \<Rightarrow> rng \<Rightarrow> EconomicCycleSimulator \<times> rng" where
  "phase_transition self g =
     (if current_phase self = GROWTH \<and> phase_duration self > 24 then
        try_transition 0.3 BOOM self g
      else if current_phase self = BOOM \<and> phase_duration self > 12 then
        try_transition 0.4 RECESSION self g
      else if current_phase self = RECESSION \<and> phase_duration self > 18 then
        try_transition 0.5 RECOVERY self g
      else if current_phase self = RECOVERY \<and> phase_duration self > 15 then
        try_transition 0.6 GROWTH self g
      else (self, g))"

definition advance_cycle ::
  "EconomicCycleSimulator \<Rightarrow> rng \<Rightarrow> EconomicCycleSimulator \<times> rng" where
  "advance_cycle self g =
     (case phase_transition (self\<lparr>phase_duration := phase_duration self + 1\<rparr>) g of
        (self', g') \<Rightarrow> update_economic_indicators self' g')"

text \<open>Repeated calls of \<^verbatim>\<open>advance_cycle\<close>, threading the generator.\<close>

fun run_cycles :: "nat \<Rightarrow> EconomicCycleSimulator \<Rightarrow> rng \<Rightarrow> EconomicCycleSimulator \<times> rng" where
  "run_cycles 0 self g = (self, g)"
| "run_cycles (Suc n) self g =
     (case advance_cycle self g of (self', g') \<Rightarrow> run_cycles n self' g')"

text \<open>The literal ranges of \<^verbatim>\<open>_update_economic_indicators\<close>, tabulated per phase.\<close>

fun gdp_growth_range :: "MarketPhase \<Rightarrow> real \<times> real" where
  "gdp_growth_range GROWTH = (0.02, 0.04)"
| "gdp_growth_range BOOM = (0.04, 0.07)"
| "gdp_growth_range RECESSION = (-0.03, 0.01)"
| "gdp_growth_range RECOVERY = (0.01, 0.03)"
| "gdp_growth_range STAGNATION = (-0.01, 0.01)"

fun unemployment_range :: "MarketPhase \<Rightarrow> real \<times> real" where
  "unemployment_range GROWTH = (0.03, 0.06)"
| "unemployment_range BOOM = (0.02, 0.04)"
| "unemployment_range RECESSION = (0.06, 0.12)"
| "unemployment_range RECOVERY = (0.05, 0.08)"
| "unemployment_range STAGNATION = (0.05, 0.07)"

fun interest_range :: "MarketPhase \<Rightarrow> real \<times> real" where
  "interest_range GROWTH = (0.02, 0.06)"
| "interest_range BOOM = (0.01, 0.04)"
| "interest_range RECESSION = (0.00, 0.02)"
| "interest_range RECOVERY = (0.01, 0.03)"
| "interest_range STAGNATION = (0.02, 0.04)"

fun tech_sector_range :: "MarketPhase \<Rightarrow> real \<times> real" where
  "tech_sector_range GROWTH = (0.7, 0.9)"
| "tech_sector_range BOOM = (0.8, 1.0)"
| "tech_sector_range RECESSION = (0.3, 0.6)"
| "tech_sector_range RECOVERY = (0.6, 0.8)"
| "tech_sector_range STAGNATION = (0.5, 0.7)"

definition in_bounds :: "real \<Rightarrow> real \<times> real \<Rightarrow> bool" where
  "in_bounds x r = (fst r \<le> x \<and> x \<le> snd r)"

text \<open>
  The pair (phase, duration) as \<^verbatim>\<open>advance_cycle\<close> moves it when every
  \<^verbatim>\<open>random.random()\<close> returns 0, so that each transition fires as soon as its
  duration threshold is passed.
\<close>

definition phase_of :: "EconomicCycleSimulator \<Rightarrow> MarketPhase \<times> int" where
  "phase_of self = (current_phase self, phase_duration self)"

fun next_phase :: "MarketPhase \<times> int \<Rightarrow> MarketPhase \<times> int" where
  "next_phase (p, d) =
     (if p = GROWTH \<and> d + 1 > 24 then (BOOM, 0)
      else if p = BOOM \<and> d + 1 > 12 then (RECESSION, 0)
      else if p = RECESSION \<and> d + 1 > 18 then (RECOVERY, 0)
      else if p = RECOVERY \<and> d + 1 > 15 then (GROWTH, 0)
      else (p, d + 1))"

section \<open>Values of dynamically typed dictionaries\<close>

text \<open>
  A \<^verbatim>\<open>Dict[str, Any]\<close> is an association list in insertion order; assigning to a key
  is \<^const>\<open>AList.update\<close> (an existing key keeps its place, a new one goes last).
  The values are numbers, strings, ISO timestamps (a timestamp string is kept as the clock
  reading it prints) and, as an instance of what \<^verbatim>\<open>Any\<close> admits beyond JSON,
  \<^verbatim>\<open>datetime\<close> objects.
\<close>

datatype pyval = Num real | Str string | Stamp nat | Datetime nat

type_synonym pydict = "(string \<times> pyval) list"

datatype py_error = KeyError | TypeError | ZeroDivisionError

type_synonym datetime = nat

record Ambient =
  uuids :: "string src"
  clock :: "datetime src"

text \<open>\<^verbatim>\<open>str(uuid.uuid4())\<close> and \<^verbatim>\<open>datetime.now()\<close>\<close>

definition uuid4 :: "Ambient \<Rightarrow> string \<times> Ambient" where
  "uuid4 env = (uuids env 0, env\<lparr>uuids := \<lambda>n. uuids env (Suc n)\<rparr>)"

definition datetime_now :: "Ambient \<Rightarrow> datetime \<times> Ambient" where
  "datetime_now env = (clock env 0, env\<lparr>clock := \<lambda>n. clock env (Suc n)\<rparr>)"

section \<open>Messaging (core/communication_system.py)\<close>

datatype MessageType =
    TASK_ASSIGNMENT | COLLABORATION_REQUEST | DECISION_NOTIFICATION | STATUS_UPDATE
  | MEETING_REQUEST | BUDGET_REQUEST | APPROVAL_REQUEST | GENERAL_COMMUNICATION | CRISIS_ALERT

datatype Priority = LOW | MEDIUM | HIGH | URGENT | CRITICAL

fun priority_value :: "Priority \<Rightarrow> nat" where
  "priority_value LOW = 1"
| "priority_value MEDIUM = 2"
| "priority_value HIGH = 3"
| "priority_value URGENT = 4"
| "priority_value CRITICAL = 5"

record Message =
  msg_id :: string
  sender_id :: string
  receiver_id :: string
  message_type :: MessageType
  subject :: string
  content :: string
  priority :: Priority
  created_at :: datetime
  read_at :: "datetime option"
  responded_at :: "datetime option"
  metadata :: pydict

record Notification =
  notif_id :: string
  notif_agent_id :: string
  notif_message_id :: string
  notif_priority :: Priority
  notif_timestamp :: datetime
  acknowledged :: bool

record NotificationSystem =
  notifications :: "Notification list"

text \<open>
  \<^verbatim>\<open>CommunicationSystem\<close>. A \<^verbatim>\<open>Message\<close> object is created only by
  \<^verbatim>\<open>send_message\<close>, which appends it to \<^verbatim>\<open>self.messages\<close> and never removes it,
  so that list is the store of message objects and a position in it is an object
  reference. The receiver queues hold the same objects: they are lists of references, and
  a timestamp written through \<^verbatim>\<open>self.messages\<close> is seen through the queue.
  The fields \<^verbatim>\<open>organizational_memory\<close> and \<^verbatim>\<open>meeting_rooms\<close> are not touched by the
  operations below and are left out.
\<close>

record CommunicationSystem =
  messages :: "Message list"
  message_queues :: "string \<rightharpoonup> nat list"
  notification_system :: NotificationSystem

definition CommunicationSystem_init :: CommunicationSystem where
  "CommunicationSystem_init =
     \<lparr>messages = [], message_queues = Map.empty,
      notification_system = \<lparr>notifications = []\<rparr>\<rparr>"

text \<open>
  \<^verbatim>\<open>NotificationSystem.send_notification\<close>; \<^verbatim>\<open>_escalate_notification\<close> is
  \<^verbatim>\<open>pass\<close>, so the branch on \<^verbatim>\<open>CRITICAL\<close> changes nothing.
\<close>

definition send_notification ::
  "NotificationSystem \<Rightarrow> Ambient \<Rightarrow> string \<Rightarrow> Message \<Rightarrow> NotificationSystem \<times> Ambient" where
  "send_notification self env agent_id message =
     (case uuid4 env of (nid, env1) \<Rightarrow>
      case datetime_now env1 of (now, env2) \<Rightarrow>
        (self\<lparr>notifications := notifications self @
            [\<lparr>notif_id = nid, notif_agent_id = agent_id, notif_message_id = msg_id message,
              notif_priority = priority message, notif_timestamp = now,
              acknowledged = False\<rparr>]\<rparr>, env2))"

definition send_message ::
  "CommunicationSystem \<Rightarrow> Ambient \<Rightarrow> string \<Rightarrow> string \<Rightarrow> MessageType \<Rightarrow> string \<Rightarrow> string \<Rightarrow>
   Priority \<Rightarrow> pydict \<Rightarrow> string \<times> CommunicationSystem \<times> Ambient" where
  "send_message self env sender receiver mtype subj cont prio meta =
     (case uuid4 env of (mid, env1) \<Rightarrow>
      case datetime_now env1 of (now, env2) \<Rightarrow>
        let message = \<lparr>msg_id = mid, sender_id = sender, receiver_id = receiver,
                        message_type = mtype, subject = subj, content = cont,
                        priority = prio, created_at = now, read_at = None,
                        responded_at = None, metadata = meta\<rparr>;
            ref = length (messages self);
            queue = (case message_queues self receiver of None \<Rightarrow> [] | Some q \<Rightarrow> q);
            self1 = self\<lparr>messages := messages self @ [message],
                         message_queues := (message_queues self)(receiver \<mapsto> queue @ [ref])\<rparr>
        in if priority_value prio \<ge> priority_value HIGH then
             (case send_notification (notification_system self1) env2 receiver message of
                (ns, env3) \<Rightarrow> (mid, self1\<lparr>notification_system := ns\<rparr>, env3))
           else (mid, self1, env2))"

text \<open>The \<^verbatim>\<open>Message\<close> object that \<^verbatim>\<open>send_message\<close> constructs.\<close>

definition new_message ::
  "Ambient \<Rightarrow> string \<Rightarrow> string \<Rightarrow> MessageType \<Rightarrow> string \<Rightarrow> string \<Rightarrow> Priority \<Rightarrow> pydict \<Rightarrow> Message" where
  "new_message env sender receiver mtype subj cont prio meta =
     \<lparr>msg_id = uuids env 0, sender_id = sender, receiver_id = receiver,
      message_type = mtype, subject = subj, content = cont,
      priority = prio, created_at = clock env 0, read_at = None,
      responded_at = None, metadata = meta\<rparr>"

text \<open>\<^verbatim>\<open>get_messages\<close>: the queue of the agent, dereferenced.\<close>

definition get_messages :: "CommunicationSystem \<Rightarrow> string \<Rightarrow> bool \<Rightarrow> Message list" where
  "get_messages self agent_id unread_only =
     (let agent_messages =
            map (\<lambda>r. messages self ! r)
              (case message_queues self agent_id of None \<Rightarrow> [] | Some q \<Rightarrow> q)
      in if unread_only then filter (\<lambda>msg. read_at msg = None) agent_messages
         else agent_messages)"

text \<open>
  The two search loops over \<^verbatim>\<open>self.messages\<close> stop at the first message that passes
  the test; \<open>find_first\<close> gives its position.
\<close>

fun find_first :: "('a \<Rightarrow> bool) \<Rightarrow> 'a list \<Rightarrow> nat option" where
  "find_first P [] = None"
| "find_first P (x # xs) =
     (if P x then Some 0 else map_option Suc (find_first P xs))"

definition mark_message_read ::
  "CommunicationSystem \<Rightarrow> Ambient \<Rightarrow> string \<Rightarrow> string \<Rightarrow> bool \<times> CommunicationSystem \<times> Ambient" where
  "mark_message_read self env message_id reader_id =
     (case find_first (\<lambda>message. msg_id message = message_id \<and> receiver_id message = reader_id)
             (messages self) of
        None \<Rightarrow> (False, self, env)
      | Some i \<Rightarrow>
          (case datetime_now env of (now, env1) \<Rightarrow>
             (True,
              self\<lparr>messages := (messages self)[i := (messages self ! i)\<lparr>read_at := Some now\<rparr>]\<rparr>,
              env1)))"

definition respond_to_message ::
  "CommunicationSystem \<Rightarrow> Ambient \<Rightarrow> string \<Rightarrow> string \<Rightarrow> string \<Rightarrow>
   string option \<times> CommunicationSystem \<times> Ambient" where
  "respond_to_message self env original_message_id response_content sender =
     (case find_first (\<lambda>msg. msg_id msg = original_message_id) (messages self) of
        None \<Rightarrow> (None, self, env)
      | Some i \<Rightarrow>
          (case datetime_now env of (now, env1) \<Rightarrow>
             let original_message = (messages self ! i)\<lparr>responded_at := Some now\<rparr>;
                 self1 = self\<lparr>messages := (messages self)[i := original_message]\<rparr>
             in (case send_message self1 env1 sender (sender_id original_message)
                        GENERAL_COMMUNICATION (''Re: '' @ subject original_message)
                        response_content (priority original_message)
                        [(''in_reply_to'', Str original_message_id)] of
                   (response_id, self2, env2) \<Rightarrow> (Some response_id, self2, env2))))"

section \<open>Negotiation (core/communication_system.py)\<close>

text \<open>
  A negotiation is a dict in the source; its keys are the fields below, with
  \<^verbatim>\<open>resolved_at\<close> absent until \<^verbatim>\<open>resolve_negotiation\<close> adds it.
\<close>

record Negotiation =
  neg_id :: string
  initiator :: string
  other_party :: string
  topic :: string
  status :: string
  proposals :: "pydict list"
  neg_created_at :: datetime
  resolution :: "pydict option"
  resolved_at :: "datetime option"

record NegotiationSystem =
  communication_system :: CommunicationSystem
  active_negotiations :: "string \<rightharpoonup> Negotiation"
  resolution_history :: "Negotiation list"

definition NegotiationSystem_init :: "CommunicationSystem \<Rightarrow> NegotiationSystem" where
  "NegotiationSystem_init cs =
     \<lparr>communication_system = cs, active_negotiations = Map.empty, resolution_history = []\<rparr>"

text \<open>
  \<^verbatim>\<open>json.dumps(_, indent=2)\<close> belongs to the standard library. It raises TypeError
  on a dict that holds a value it cannot serialise, such as a \<^verbatim>\<open>datetime\<close>; on the
  others it returns their text, whose layout is the parameter \<open>render\<close>.
\<close>

fun json_serialisable :: "pyval \<Rightarrow> bool" where
  "json_serialisable (Num x) = True"
| "json_serialisable (Str s) = True"
| "json_serialisable (Stamp t) = True"
| "json_serialisable (Datetime t) = False"

definition serialisable :: "pydict \<Rightarrow> bool" where
  "serialisable d = list_all (\<lambda>(k, v). json_serialisable v) d"

definition json_dumps :: "(pydict \<Rightarrow> string) \<Rightarrow> pydict \<Rightarrow> py_error + string" where
  "json_dumps render d = (if serialisable d then Inr (render d) else Inl TypeError)"

text \<open>
  The three operations give the value returned or the exception raised, together with
  the state the call leaves behind: an exception does not undo the assignments made
  before it. The arguments of \<^verbatim>\<open>send_message\<close> are evaluated before the call, so an
  exception of \<^verbatim>\<open>json.dumps\<close> comes before the message is sent.
\<close>

definition initiate_negotiation ::
  "(pydict \<Rightarrow> string) \<Rightarrow> NegotiationSystem \<Rightarrow> Ambient \<Rightarrow> string \<Rightarrow> string \<Rightarrow> string \<Rightarrow> pydict \<Rightarrow>
   (py_error + string) \<times> NegotiationSystem \<times> Ambient" where
  "initiate_negotiation render self env initiator_id other_party_id tpc initial_proposal =
     (case uuid4 env of (negotiation_id, env1) \<Rightarrow>
      case datetime_now env1 of (now, env2) \<Rightarrow>
        let negotiation = \<lparr>neg_id = negotiation_id, initiator = initiator_id,
                            other_party = other_party_id, topic = tpc, status = ''active'',
                            proposals = [initial_proposal], neg_created_at = now,
                            resolution = None, resolved_at = None\<rparr>;
            self1 = self\<lparr>active_negotiations :=
                           (active_negotiations self)(negotiation_id \<mapsto> negotiation)\<rparr>
        in (case json_dumps render initial_proposal of
              Inl e \<Rightarrow> (Inl e, self1, env2)
            | Inr text \<Rightarrow>
                (case send_message (communication_system self1) env2 initiator_id other_party_id
                        COLLABORATION_REQUEST (''Negotiation Request: '' @ tpc)
                        (''Proposal: '' @ text) HIGH
                        [(''negotiation_id'', Str negotiation_id)] of
                   (_, cs, env3) \<Rightarrow>
                     (Inr negotiation_id, self1\<lparr>communication_system := cs\<rparr>, env3))))"

definition add_counter_proposal ::
  "(pydict \<Rightarrow> string) \<Rightarrow> NegotiationSystem \<Rightarrow> Ambient \<Rightarrow> string \<Rightarrow> string \<Rightarrow> pydict \<Rightarrow>
   (py_error + bool) \<times> NegotiationSystem \<times> Ambient" where
  "add_counter_proposal render self env negotiation_id agent_id proposal =
     (case active_negotiations self negotiation_id of
        None \<Rightarrow> (Inr False, self, env)
      | Some negotiation \<Rightarrow>
          (case datetime_now env of (now, env1) \<Rightarrow>
             let proposal1 = AList.update ''timestamp'' (Stamp now)
                               (AList.update ''proposed_by'' (Str agent_id) proposal);
                 negotiation1 = negotiation\<lparr>proposals := proposals negotiation @ [proposal1]\<rparr>;
                 self1 = self\<lparr>active_negotiations :=
                                (active_negotiations self)(negotiation_id \<mapsto> negotiation1)\<rparr>;
                 other = (if agent_id = initiator negotiation1 then other_party negotiation1
                          else initiator negotiation1)
             in (case json_dumps render proposal1 of
                   Inl e \<Rightarrow> (Inl e, self1, env1)
                 | Inr text \<Rightarrow>
                     (case send_message (communication_system self1) env1 agent_id other
                             GENERAL_COMMUNICATION (''Counter-proposal: '' @ topic negotiation1)
                             (''New proposal: '' @ text) HIGH
                             [(''negotiation_id'', Str negotiation_id)] of
                        (_, cs, env2) \<Rightarrow>
                          (Inr True, self1\<lparr>communication_system := cs\<rparr>, env2)))))"

text \<open>
  The notification loop of \<^verbatim>\<open>resolve_negotiation\<close> over the two participants; the
  content of each message is built, and \<^verbatim>\<open>json.dumps\<close> called, in its iteration.
\<close>

fun notify_participants ::
  "(pydict \<Rightarrow> string) \<Rightarrow> CommunicationSystem \<Rightarrow> Ambient \<Rightarrow> string list \<Rightarrow> string \<Rightarrow> pydict \<Rightarrow>
   (py_error + unit) \<times> CommunicationSystem \<times> Ambient" where
  "notify_participants render cs env [] subj res = (Inr (), cs, env)"
| "notify_participants render cs env (participant # rest) subj res =
     (case json_dumps render res of
        Inl e \<Rightarrow> (Inl e, cs, env)
      | Inr text \<Rightarrow>
          (case send_message cs env ''system'' participant DECISION_NOTIFICATION subj
                  (''Resolution: '' @ text) HIGH [] of
             (_, cs1, env1) \<Rightarrow> notify_participants render cs1 env1 rest subj res))"

definition resolve_negotiation ::
  "(pydict \<Rightarrow> string) \<Rightarrow> NegotiationSystem \<Rightarrow> Ambient \<Rightarrow> string \<Rightarrow> pydict \<Rightarrow>
   (py_error + bool) \<times> NegotiationSystem \<times> Ambient" where
  "resolve_negotiation render self env negotiation_id res =
     (case active_negotiations self negotiation_id of
        None \<Rightarrow> (Inr False, self, env)
      | Some negotiation \<Rightarrow>
          (case datetime_now env of (now, env1) \<Rightarrow>
             let negotiation1 = negotiation\<lparr>status := ''resolved'', resolution := Some res,
                                            resolved_at := Some now\<rparr>;
                 self1 = self\<lparr>resolution_history := resolution_history self @ [negotiation1],
                              active_negotiations :=
                                (active_negotiations self)(negotiation_id := None)\<rparr>
             in (case notify_participants render (communication_system self1) env1
                        [initiator negotiation1, other_party negotiation1]
                        (''Negotiation Resolved: '' @ topic negotiation1) res of
                   (Inl e, cs, env2) \<Rightarrow> (Inl e, self1\<lparr>communication_system := cs\<rparr>, env2)
                 | (Inr _, cs, env2) \<Rightarrow> (Inr True, self1\<lparr>communication_system := cs\<rparr>, env2))))"

section \<open>Customers and market dynamics (core/advanced_market.py)\<close>

text \<open>
  Reading a number out of a market-conditions dict. \<^verbatim>\<open>d.get(k, default)\<close> followed by
  a comparison or a product raises TypeError when the stored value is a string;
  \<^verbatim>\<open>d[k]\<close> raises KeyError when the key is absent.
\<close>

definition dict_get_num :: "pydict \<Rightarrow> string \<Rightarrow> real \<Rightarrow> py_error + real" where
  "dict_get_num d k dflt =
     (case map_of d k of
        None \<Rightarrow> Inr dflt
      | Some (Num x) \<Rightarrow> Inr x
      | Some _ \<Rightarrow> Inl TypeError)"

definition dict_index_num :: "pydict \<Rightarrow> string \<Rightarrow> py_error + real" where
  "dict_index_num d k =
     (case map_of d k of
        None \<Rightarrow> Inl KeyError
      | Some (Num x) \<Rightarrow> Inr x
      | Some _ \<Rightarrow> Inl TypeError)"

datatype CustomerSegment = ENTERPRISE | MID_MARKET | SMB | STARTUP

record VirtualCustomer =
  cust_id :: string
  cust_name :: string
  segment :: CustomerSegment
  industry :: string
  cust_size :: int
  budget :: real
  satisfaction :: real
  loyalty :: real
  churn_probability :: real
  lifetime_value :: real
  decision_speed :: real
  price_sensitivity :: real
  feature_preferences :: "(string \<times> real) list"
  adoption_rate :: real
  support_tickets_per_month :: int
  expansion_potential :: real
  contract_length :: int
  renewal_probability :: real

text \<open>\<^verbatim>\<open>VirtualCustomer.update_churn_probability\<close>\<close>

definition update_churn_probability ::
  "VirtualCustomer \<Rightarrow> pydict \<Rightarrow> py_error + VirtualCustomer" where
  "update_churn_probability self market_conditions =
     (let base_churn = 0.1;
          satisfaction_impact = (1 - satisfaction self) * 0.3;
          loyalty_impact = (1 - loyalty self) * 0.2
      in case dict_get_num market_conditions ''competitive_pressure'' 0 of
           Inl e \<Rightarrow> Inl e
         | Inr competitive_pressure \<Rightarrow>
      (case dict_get_num market_conditions ''economic_growth'' 0 of
           Inl e \<Rightarrow> Inl e
         | Inr economic_growth \<Rightarrow>
      (case dict_get_num market_conditions ''price_increase'' 0 of
           Inl e \<Rightarrow> Inl e
         | Inr price_increase \<Rightarrow>
             let market_impact = (if competitive_pressure > 0.7 then 0.1 else 0)
                               + (if economic_growth < 0.3 then 0.15 else 0);
                 price_impact = (if price_increase > 0
                                 then price_sensitivity self * price_increase * 0.2 else 0)
             in Inr (self\<lparr>churn_probability :=
                       min 0.8 (base_churn + satisfaction_impact + loyalty_impact
                                + market_impact + price_impact)\<rparr>))))"

text \<open>
  \<^verbatim>\<open>calculate_expansion_opportunity\<close>. The result dict has the keys potential, type,
  value and, in the second branch only, probability. \<^verbatim>\<open>max(items, key=...)\<close> keeps the
  first of several maximal items.
\<close>

record Expansion =
  potential :: real
  exp_type :: "string option"
  exp_value :: real
  probability :: "real option"

fun first_max :: "string \<times> real \<Rightarrow> (string \<times> real) list \<Rightarrow> string \<times> real" where
  "first_max best [] = best"
| "first_max best (x # xs) = first_max (if snd x > snd best then x else best) xs"

definition calculate_expansion_opportunity :: "VirtualCustomer \<Rightarrow> Expansion" where
  "calculate_expansion_opportunity self =
     (if satisfaction self < 0.6 \<or> loyalty self < 0.4 then
        \<lparr>potential = 0, exp_type = None, exp_value = 0, probability = None\<rparr>
      else
        let best_opportunity =
              first_max (''seat_expansion'', real_of_int (cust_size self) * 0.1 * expansion_potential self)
                [(''feature_upgrade'', budget self * 0.2 * expansion_potential self),
                 (''additional_products'', lifetime_value self * 0.3 * expansion_potential self)]
        in \<lparr>potential = expansion_potential self, exp_type = Some (fst best_opportunity),
            exp_value = snd best_opportunity,
            probability = Some (min 0.8 (satisfaction self * loyalty self))\<rparr>)"

fun phase_value :: "MarketPhase \<Rightarrow> string" where
  "phase_value GROWTH = ''growth''"
| "phase_value RECESSION = ''recession''"
| "phase_value RECOVERY = ''recovery''"
| "phase_value BOOM = ''boom''"
| "phase_value STAGNATION = ''stagnation''"

text \<open>\<^verbatim>\<open>EconomicCycleSimulator.get_market_conditions\<close>\<close>

definition get_market_conditions :: "EconomicCycleSimulator \<Rightarrow> pydict" where
  "get_market_conditions self =
     [(''phase'', Str (phase_value (current_phase self))),
      (''gdp_growth'', Num (gdp_growth self)),
      (''unemployment_rate'', Num (unemployment_rate self)),
      (''interest_rates'', Num (interest_rates self)),
      (''inflation_rate'', Num (inflation_rate self)),
      (''market_volatility'', Num (market_volatility self)),
      (''tech_sector_performance'', Num (tech_sector_performance self)),
      (''phase_duration'', Num (real_of_int (phase_duration self)))]"

text \<open>
  The customer loop of \<^verbatim>\<open>simulate_market_dynamics\<close>: every customer is updated in
  place, then one \<^verbatim>\<open>random.random()\<close> decides churn; a survivor is asked for its
  expansion opportunity. The result is the list of all customers after their update, the
  churned ones, the expansion opportunities and the generator. An exception leaves the
  loop; the partly updated population is not kept in the model.
\<close>

fun customer_loop ::
  "VirtualCustomer list \<Rightarrow> pydict \<Rightarrow> rng \<Rightarrow>
   py_error + (VirtualCustomer list \<times> VirtualCustomer list \<times>
               (VirtualCustomer \<times> Expansion) list \<times> rng)" where
  "customer_loop [] market_conditions g = Inr ([], [], [], g)"
| "customer_loop (customer # rest) market_conditions g =
     (case update_churn_probability customer market_conditions of
        Inl e \<Rightarrow> Inl e
      | Inr customer1 \<Rightarrow>
          (case random_random g of (r, g1) \<Rightarrow>
             (case customer_loop rest market_conditions g1 of
                Inl e \<Rightarrow> Inl e
              | Inr (updated, churned, opportunities, g2) \<Rightarrow>
                  if r < churn_probability customer1 then
                    Inr (customer1 # updated, customer1 # churned, opportunities, g2)
                  else
                    let expansion = calculate_expansion_opportunity customer1
                    in Inr (customer1 # updated, churned,
                            (if potential expansion > 0.5 then [(customer1, expansion)] else [])
                              @ opportunities, g2))))"

text \<open>
  \<^verbatim>\<open>for customer in churned_customers: self.virtual_customers.remove(customer)\<close>;
  \<^verbatim>\<open>list.remove\<close> deletes the first element equal to its argument, and dataclass
  equality compares the fields.
\<close>

definition remove_churned :: "VirtualCustomer list \<Rightarrow> VirtualCustomer list \<Rightarrow> VirtualCustomer list" where
  "remove_churned customers churned = foldl (\<lambda>cs c. remove1 c cs) customers churned"

record MarketEvent =
  ev_type :: string
  ev_event :: string
  ev_impact :: string
  severity :: real

text \<open>\<^verbatim>\<open>_generate_market_events\<close>: each random event draws its gate, then its severity.\<close>

definition random_event ::
  "real \<Rightarrow> string \<Rightarrow> string \<Rightarrow> string \<Rightarrow> real \<Rightarrow> real \<Rightarrow> rng \<Rightarrow> MarketEvent list \<times> rng" where
  "random_event prob ty ev imp lo hi g =
     (case random_random g of (r, g1) \<Rightarrow>
        if r < prob then
          (case random_uniform lo hi g1 of (s, g2) \<Rightarrow>
             ([\<lparr>ev_type = ty, ev_event = ev, ev_impact = imp, severity = s\<rparr>], g2))
        else ([], g1))"

definition generate_market_events :: "pydict \<Rightarrow> rng \<Rightarrow> py_error + (MarketEvent list \<times> rng)" where
  "generate_market_events market_conditions g =
     (case dict_index_num market_conditions ''gdp_growth'' of
        Inl e \<Rightarrow> Inl e
      | Inr gdp \<Rightarrow>
     (case dict_index_num market_conditions ''tech_sector_performance'' of
        Inl e \<Rightarrow> Inl e
      | Inr tech \<Rightarrow>
          let economic = (if gdp < 0 then
                 [\<lparr>ev_type = ''economic'',
                   ev_event = ''Economic downturn affecting customer budgets'',
                   ev_impact = ''negative'', severity = \<bar>gdp\<bar> * 10\<rparr>] else []);
              sector = (if tech > 0.9 then
                 [\<lparr>ev_type = ''sector'',
                   ev_event = ''Tech sector boom - increased investment'',
                   ev_impact = ''positive'', severity = (tech - 0.5) * 2\<rparr>] else [])
          in (case random_event 0.1 ''competitive'' ''Major competitor launches new product''
                     ''negative'' 0.2 0.7 g of (competitive, g1) \<Rightarrow>
              case random_event 0.05 ''technology'' ''New technology disruption in market''
                     ''mixed'' 0.3 0.8 g1 of (technology, g2) \<Rightarrow>
              case random_event 0.03 ''regulatory'' ''New data privacy regulations announced''
                     ''negative'' 0.1 0.5 g2 of (regulatory, g3) \<Rightarrow>
                Inr (economic @ sector @ competitive @ technology @ regulatory, g3))))"

subsection \<open>Competitive landscape\<close>

record Competitor =
  share :: real
  strength :: real

type_synonym landscape = "(string \<times> Competitor) list"

text \<open>The dict literal of \<^verbatim>\<open>AdvancedMarketSimulator.__init__\<close>.\<close>

definition initial_competitive_landscape :: landscape where
  "initial_competitive_landscape =
     [(''market_leader'', \<lparr>share = 0.35, strength = 0.9\<rparr>),
      (''challenger_1'', \<lparr>share = 0.25, strength = 0.8\<rparr>),
      (''challenger_2'', \<lparr>share = 0.20, strength = 0.7\<rparr>),
      (''our_company'', \<lparr>share = 0.05, strength = 0.6\<rparr>),
      (''others'', \<lparr>share = 0.15, strength = 0.5\<rparr>)]"

text \<open>The share column of a landscape.\<close>

definition shares :: "landscape \<Rightarrow> real list" where
  "shares l = map (\<lambda>(competitor, data). share data) l"

text \<open>
  First loop of \<^verbatim>\<open>_update_competitive_landscape\<close>: a random change per competitor,
  biased by strength when growth is negative, and the new share cut to the interval from
  0.01 to 0.8.
\<close>

fun perturb_shares :: "real \<Rightarrow> landscape \<Rightarrow> rng \<Rightarrow> landscape \<times> rng" where
  "perturb_shares gdp [] g = ([], g)"
| "perturb_shares gdp ((competitor, data) # rest) g =
     (case random_uniform (-0.02) 0.02 g of (change0, g1) \<Rightarrow>
        let change = (if gdp < 0 then
                        (if strength data > 0.7 then change0 + 0.01 else change0 - 0.01)
                      else change0);
            new_share = max 0.01 (min 0.8 (share data + change))
        in (case perturb_shares gdp rest g1 of
              (rest1, g2) \<Rightarrow> ((competitor, data\<lparr>share := new_share\<rparr>) # rest1, g2)))"

text \<open>
  Second loop: the total is summed once, then every share is divided by it. The
  division raises ZeroDivisionError when the total is zero and there is a competitor to
  divide for.
\<close>

definition normalize_shares :: "landscape \<Rightarrow> py_error + landscape" where
  "normalize_shares l =
     (let total_share = sum_list (map (\<lambda>(competitor, data). share data) l)
      in if l \<noteq> [] \<and> total_share = 0 then Inl ZeroDivisionError
         else Inr (map (\<lambda>(competitor, data). (competitor, data\<lparr>share := share data / total_share\<rparr>)) l))"

definition update_competitive_landscape ::
  "landscape \<Rightarrow> pydict \<Rightarrow> rng \<Rightarrow> py_error + (landscape \<times> rng)" where
  "update_competitive_landscape l market_conditions g =
     (case dict_index_num market_conditions ''gdp_growth'' of
        Inl e \<Rightarrow> Inl e
      | Inr gdp \<Rightarrow>
          (case perturb_shares gdp l g of (l1, g1) \<Rightarrow>
             (case normalize_shares l1 of
                Inl e \<Rightarrow> Inl e
              | Inr l2 \<Rightarrow> Inr (l2, g1))))"

subsection \<open>The market tick\<close>

text \<open>
  \<^verbatim>\<open>np.mean\<close> belongs to numpy, not to this repository. On an empty list it divides
  zero by zero in floating point and returns NaN (with a warning, not an exception); the
  result type makes that value explicit.
\<close>

datatype npfloat = Finite real | NaN

definition np_mean :: "real list \<Rightarrow> npfloat" where
  "np_mean xs = (if xs = [] then NaN else Finite (sum_list xs / real (length xs)))"

text \<open>Python's \<^verbatim>\<open>a / b\<close> on integers.\<close>

definition py_truediv :: "nat \<Rightarrow> nat \<Rightarrow> py_error + real" where
  "py_truediv a b = (if b = 0 then Inl ZeroDivisionError else Inr (real a / real b))"

record CustomerMetrics =
  total_customers :: nat
  churned_customers :: nat
  churn_rate :: real
  expansion_opportunities :: nat
  avg_satisfaction :: npfloat
  avg_loyalty :: npfloat

record MarketResult =
  res_market_conditions :: pydict
  res_customer_metrics :: CustomerMetrics
  res_expansion_opportunities :: "(VirtualCustomer \<times> Expansion) list"
  res_market_events :: "MarketEvent list"
  res_competitive_landscape :: landscape
  res_market_size :: int

text \<open>
  \<^verbatim>\<open>AdvancedMarketSimulator\<close>; the fields \<^verbatim>\<open>competitors\<close> and \<^verbatim>\<open>market_events\<close> are
  never written after \<^verbatim>\<open>__init__\<close> and are left out.
\<close>

record AdvancedMarketSimulator =
  virtual_customers :: "VirtualCustomer list"
  economic_cycle :: EconomicCycleSimulator
  competitive_landscape :: landscape
  total_market_size :: int
  market_growth_rate :: real

definition simulate_market_dynamics ::
  "AdvancedMarketSimulator \<Rightarrow> rng \<Rightarrow> py_error + (MarketResult \<times> AdvancedMarketSimulator \<times> rng)" where
  "simulate_market_dynamics self g =
     (case advance_cycle (economic_cycle self) g of (cycle, g1) \<Rightarrow>
      let market_conditions = get_market_conditions cycle in
      case customer_loop (virtual_customers self) market_conditions g1 of
        Inl e \<Rightarrow> Inl e
      | Inr (updated, churned, opportunities, g2) \<Rightarrow>
      let customers = remove_churned updated churned in
      case generate_market_events market_conditions g2 of
        Inl e \<Rightarrow> Inl e
      | Inr (events, g3) \<Rightarrow>
      case update_competitive_landscape (competitive_landscape self) market_conditions g3 of
        Inl e \<Rightarrow> Inl e
      | Inr (l, g4) \<Rightarrow>
      case py_truediv (length churned)
             (max 1 (length customers + length churned)) of
        Inl e \<Rightarrow> Inl e
      | Inr rate \<Rightarrow>
          Inr (\<lparr>res_market_conditions = market_conditions,
                res_customer_metrics =
                  \<lparr>total_customers = length customers,
                   churned_customers = length churned,
                   churn_rate = rate,
                   expansion_opportunities = length opportunities,
                   avg_satisfaction = np_mean (map satisfaction customers),
                   avg_loyalty = np_mean (map loyalty customers)\<rparr>,
                res_expansion_opportunities = opportunities,
                res_market_events = events,
                res_competitive_landscape = l,
                res_market_size = total_market_size self\<rparr>,
               self\<lparr>virtual_customers := customers, economic_cycle := cycle,
                    competitive_landscape := l\<rparr>,
               g4))"

section \<open>Scheduler (core/organizational_simulator.py)\<close>

text \<open>
  \<^verbatim>\<open>OrganizationalSimulator\<close>. The agents, the communication system, the organizational
  memory, the negotiation system and the event lists are the collaborators \<open>'w\<close>; a
  daily snapshot is \<open>'s\<close>. \<^verbatim>\<open>performance_metrics\<close> holds the numpy average of the
  tick under \<^verbatim>\<open>customer_satisfaction\<close>.
\<close>

record ('w, 's) OrganizationalSimulator =
  simulation_day :: int
  is_running :: bool
  market_simulator :: AdvancedMarketSimulator
  performance_metrics :: "(string \<times> npfloat) list"
  financial_metrics :: "(string \<times> real) list"
  organizational_health :: "(string \<times> real) list"
  daily_snapshots :: "'s list"
  collaborators :: 'w

text \<open>
  The value \<^verbatim>\<open>advance_day\<close> returns: the dict with the single key \<^verbatim>\<open>status\<close>, or
  the snapshot of the day.
\<close>

datatype 's day_result = Status string | Snapshot 's

text \<open>
  \<^verbatim>\<open>advance_day\<close>. After the market tick, the steps that call the agent objects
  (\<^verbatim>\<open>_process_daily_agent_activities\<close>, \<^verbatim>\<open>_process_collaborations\<close>,
  \<^verbatim>\<open>_process_negotiations\<close>, \<^verbatim>\<open>_update_organizational_metrics\<close>,
  \<^verbatim>\<open>_generate_daily_events\<close>, \<^verbatim>\<open>_update_financial_metrics\<close> and
  \<^verbatim>\<open>_capture_daily_snapshot\<close>, in this order) are the parameter \<open>daily_steps\<close>: from the
  market results, the simulator and the generator they give the snapshot, the simulator
  and the generator.
\<close>

definition advance_day ::
  "(MarketResult \<Rightarrow> ('w, 's) OrganizationalSimulator \<Rightarrow> rng \<Rightarrow>
      's \<times> ('w, 's) OrganizationalSimulator \<times> rng) \<Rightarrow>
   ('w, 's) OrganizationalSimulator \<Rightarrow> rng \<Rightarrow>
   py_error + ('s day_result \<times> ('w, 's) OrganizationalSimulator \<times> rng)" where
  "advance_day daily_steps self g =
     (if \<not> is_running self then Inr (Status ''simulation_not_running'', self, g)
      else
        let self1 = self\<lparr>simulation_day := simulation_day self + 1\<rparr> in
        case simulate_market_dynamics (market_simulator self1) g of
          Inl e \<Rightarrow> Inl e
        | Inr (market_results, ms, g1) \<Rightarrow>
            (case daily_steps market_results (self1\<lparr>market_simulator := ms\<rparr>) g1 of
               (daily_snapshot, self2, g2) \<Rightarrow>
                 let snaps = daily_snapshots self2 @ [daily_snapshot];
                     snaps1 = (if length snaps > 365
                               then drop (length snaps - 365) snaps else snaps)
                 in Inr (Snapshot daily_snapshot, self2\<lparr>daily_snapshots := snaps1\<rparr>, g2)))"

section \<open>Test fixtures\<close>

text \<open>
  An ambient source whose identifiers are \<open>u\<close>, \<open>uu\<close>, \<open>uuu\<close>, ... and whose clock
  reads 100, 101, ...; an inbox with one message; the same after one reply; and a
  negotiation after \<^verbatim>\<open>initiate_negotiation\<close> and one counter-proposal.
\<close>

definition fixture_env :: Ambient where
  "fixture_env = \<lparr>uuids = (\<lambda>n. replicate (Suc n) CHR ''u''), clock = (\<lambda>n. 100 + n)\<rparr>"

definition fixture_inbox :: "CommunicationSystem \<times> Ambient" where
  "fixture_inbox =
     snd (send_message CommunicationSystem_init fixture_env ''alice'' ''bob''
            STATUS_UPDATE ''report'' ''done'' MEDIUM [])"

definition fixture_replied :: "string option \<times> CommunicationSystem \<times> Ambient" where
  "fixture_replied =
     respond_to_message (fst fixture_inbox) (snd fixture_inbox) ''u'' ''thanks'' ''bob''"

definition fixture_dumps :: "pydict \<Rightarrow> string" where
  "fixture_dumps d = concat (map fst d)"

definition fixture_countered :: "(py_error + bool) \<times> NegotiationSystem \<times> Ambient" where
  "fixture_countered =
     (case initiate_negotiation fixture_dumps (NegotiationSystem_init CommunicationSystem_init)
             fixture_env ''alice'' ''bob'' ''budget'' [(''amount'', Num 10)] of
        (Inl e, ns, env) \<Rightarrow> (Inl e, ns, env)
      | (Inr nid, ns, env) \<Rightarrow>
          add_counter_proposal fixture_dumps ns env nid ''bob'' [(''amount'', Num 8)])"

text \<open>
  A customer with the defaults of the dataclass, one with a negative price sensitivity,
  a market whose whole population is the first, and a stopped scheduler.
\<close>

definition fixture_customer :: VirtualCustomer where
  "fixture_customer =
     \<lparr>cust_id = ''customer_000'', cust_name = ''Retail Corp 000'', segment = SMB,
      industry = ''Retail'', cust_size = 50, budget = 20000, satisfaction = 0.5,
      loyalty = 0.3, churn_probability = 0.1, lifetime_value = 50000, decision_speed = 0.5,
      price_sensitivity = 0.5, feature_preferences = [(''security'', 0.5)],
      adoption_rate = 0.5, support_tickets_per_month = 2, expansion_potential = 0.3,
      contract_length = 12, renewal_probability = 0.8\<rparr>"

definition fixture_odd_customer :: VirtualCustomer where
  "fixture_odd_customer =
     fixture_customer\<lparr>satisfaction := 1, loyalty := 1, price_sensitivity := - 1\<rparr>"

definition fixture_market :: AdvancedMarketSimulator where
  "fixture_market =
     \<lparr>virtual_customers = [fixture_customer], economic_cycle = EconomicCycleSimulator_init,
      competitive_landscape = initial_competitive_landscape,
      total_market_size = 10000000, market_growth_rate = 0.15\<rparr>"

definition fixture_scheduler :: "(unit, nat) OrganizationalSimulator" where
  "fixture_scheduler =
     \<lparr>simulation_day = 0, is_running = False, market_simulator = fixture_market,
      performance_metrics = [], financial_metrics = [(''revenue'', 0)],
      organizational_health = [(''morale'', 0.75)], daily_snapshots = [],
      collaborators = ()\<rparr>"

section \<open>Economic cycle: proofs\<close>

lemma take_src_const: "take_src (\<lambda>_. c) = (c, \<lambda>_. c)"
  by (simp add: take_src_def)

lemma unit_draws_tail: "unit_draws g \<Longrightarrow> unit_draws (snd (take_src g))"
  by (simp add: unit_draws_def take_src_def)

lemma random_uniform_bounds:
  assumes "unit_draws g" "a \<le> b"
  shows "a \<le> fst (random_uniform a b g)" "fst (random_uniform a b g) \<le> b"
    "unit_draws (snd (random_uniform a b g))"
proof -
  have u: "0 \<le> g 0" "g 0 < 1" using assms(1) by (auto simp: unit_draws_def)
  have m: "0 \<le> (b - a) * g 0" using u assms(2) by simp
  have "(b - a) * g 0 \<le> (b - a) * 1" using u assms(2) by (intro mult_left_mono) auto
  then show "a \<le> fst (random_uniform a b g)" "fst (random_uniform a b g) \<le> b"
    using m by (auto simp: random_uniform_def random_random_def take_src_def)
  show "unit_draws (snd (random_uniform a b g))"
    using assms(1) by (auto simp: random_uniform_def random_random_def take_src_def unit_draws_def)
qed

lemma draw_indicators_fields:
  "current_phase (fst (draw_indicators gd un ir ts self g)) = current_phase self"
  "phase_duration (fst (draw_indicators gd un ir ts self g)) = phase_duration self"
  "inflation_rate (fst (draw_indicators gd un ir ts self g)) = inflation_rate self"
  "market_volatility (fst (draw_indicators gd un ir ts self g)) = market_volatility self"
  by (simp_all add: draw_indicators_def split: prod.splits)

lemma draw_indicators_bounds:
  assumes "unit_draws g" "fst gd \<le> snd gd" "fst un \<le> snd un" "fst ir \<le> snd ir" "fst ts \<le> snd ts"
  shows "in_bounds (gdp_growth (fst (draw_indicators gd un ir ts self g))) gd"
    "in_bounds (unemployment_rate (fst (draw_indicators gd un ir ts self g))) un"
    "in_bounds (interest_rates (fst (draw_indicators gd un ir ts self g))) ir"
    "in_bounds (tech_sector_performance (fst (draw_indicators gd un ir ts self g))) ts"
    "unit_draws (snd (draw_indicators gd un ir ts self g))"
proof -
  obtain v1 g1 where 1: "random_uniform (fst gd) (snd gd) g = (v1, g1)" by fastforce
  obtain v2 g2 where 2: "random_uniform (fst un) (snd un) g1 = (v2, g2)" by fastforce
  obtain v3 g3 where 3: "random_uniform (fst ir) (snd ir) g2 = (v3, g3)" by fastforce
  obtain v4 g4 where 4: "random_uniform (fst ts) (snd ts) g3 = (v4, g4)" by fastforce
  have b1: "fst gd \<le> v1" "v1 \<le> snd gd" "unit_draws g1"
    using random_uniform_bounds[OF assms(1,2)] 1 by simp_all
  have b2: "fst un \<le> v2" "v2 \<le> snd un" "unit_draws g2"
    using random_uniform_bounds[OF b1(3) assms(3)] 2 by simp_all
  have b3: "fst ir \<le> v3" "v3 \<le> snd ir" "unit_draws g3"
    using random_uniform_bounds[OF b2(3) assms(4)] 3 by simp_all
  have b4: "fst ts \<le> v4" "v4 \<le> snd ts" "unit_draws g4"
    using random_uniform_bounds[OF b3(3) assms(5)] 4 by simp_all
  have e: "draw_indicators gd un ir ts self g =
      (self\<lparr>gdp_growth := v1, unemployment_rate := v2, interest_rates := v3,
              tech_sector_performance := v4\<rparr>, g4)"
    by (simp add: draw_indicators_def 1 2 3 4)
  show "in_bounds (gdp_growth (fst (draw_indicators gd un ir ts self g))) gd"
    "in_bounds (unemployment_rate (fst (draw_indicators gd un ir ts self g))) un"
    "in_bounds (interest_rates (fst (draw_indicators gd un ir ts self g))) ir"
    "in_bounds (tech_sector_performance (fst (draw_indicators gd un ir ts self g))) ts"
    "unit_draws (snd (draw_indicators gd un ir ts self g))"
    using b1 b2 b3 b4 by (simp_all add: e in_bounds_def)
qed

lemma update_economic_indicators_fields:
  "current_phase (fst (update_economic_indicators self g)) = current_phase self"
  "phase_duration (fst (update_economic_indicators self g)) = phase_duration self"
  "inflation_rate (fst (update_economic_indicators self g)) = inflation_rate self"
  "market_volatility (fst (update_economic_indicators self g)) = market_volatility self"
  by (simp_all add: update_economic_indicators_def draw_indicators_fields)

lemma update_economic_indicators_bounds:
  assumes "unit_draws g"
  shows "in_bounds (gdp_growth (fst (update_economic_indicators self g)))
           (gdp_growth_range (current_phase self))"
    "in_bounds (unemployment_rate (fst (update_economic_indicators self g)))
           (unemployment_range (current_phase self))"
    "in_bounds (interest_rates (fst (update_economic_indicators self g)))
           (interest_range (current_phase self))"
    "in_bounds (tech_sector_performance (fst (update_economic_indicators self g)))
           (tech_sector_range (current_phase self))"
  by (cases "current_phase self";
      simp add: update_economic_indicators_def draw_indicators_bounds[OF assms])+

lemma try_transition_fields:
  "inflation_rate (fst (try_transition p n self g)) = inflation_rate self"
  "market_volatility (fst (try_transition p n self g)) = market_volatility self"
  "unit_draws g \<Longrightarrow> unit_draws (snd (try_transition p n self g))"
  by (simp_all add: try_transition_def random_random_def take_src_def unit_draws_def)

lemma phase_transition_fields:
  "inflation_rate (fst (phase_transition self g)) = inflation_rate self"
  "market_volatility (fst (phase_transition self g)) = market_volatility self"
  "unit_draws g \<Longrightarrow> unit_draws (snd (phase_transition self g))"
  by (simp_all add: phase_transition_def try_transition_fields)

lemma advance_cycle_unfold:
  "advance_cycle self g =
     update_economic_indicators
       (fst (phase_transition (self\<lparr>phase_duration := phase_duration self + 1\<rparr>) g))
       (snd (phase_transition (self\<lparr>phase_duration := phase_duration self + 1\<rparr>) g))"
  by (simp add: advance_cycle_def split: prod.splits)

lemma advance_cycle_zero:
  "phase_of (fst (advance_cycle self (\<lambda>_. 0))) = next_phase (phase_of self)"
  "snd (advance_cycle self (\<lambda>_. 0)) = (\<lambda>_. 0)"
  by (simp_all add: advance_cycle_def phase_transition_def try_transition_def
      update_economic_indicators_def draw_indicators_def random_uniform_def
      random_random_def take_src_def phase_of_def)

lemma run_cycles_zero:
  "phase_of (fst (run_cycles n self (\<lambda>_. 0))) = (next_phase ^^ n) (phase_of self)"
proof (induction n arbitrary: self)
  case 0
  then show ?case by simp
next
  case (Suc n)
  obtain s' where a: "advance_cycle self (\<lambda>_. 0) = (s', \<lambda>_. 0)"
    using advance_cycle_zero(2)[of self] by (metis prod.collapse)
  have "phase_of s' = next_phase (phase_of self)"
    using advance_cycle_zero(1)[of self] a by simp
  then show ?case using Suc.IH[of s'] a by (simp add: funpow_swap1)
qed

lemma phase_transition_no_stagnation:
  "current_phase self \<noteq> STAGNATION \<Longrightarrow> current_phase (fst (phase_transition self g)) \<noteq> STAGNATION"
  by (simp add: phase_transition_def try_transition_def split: prod.splits)

lemma advance_cycle_no_stagnation:
  "current_phase self \<noteq> STAGNATION \<Longrightarrow> current_phase (fst (advance_cycle self g)) \<noteq> STAGNATION"
  by (simp add: advance_cycle_unfold update_economic_indicators_fields phase_transition_no_stagnation)

lemma run_cycles_no_stagnation:
  "current_phase self \<noteq> STAGNATION \<Longrightarrow> current_phase (fst (run_cycles n self g)) \<noteq> STAGNATION"
proof (induction n arbitrary: self g)
  case 0
  then show ?case by simp
next
  case (Suc n)
  obtain s' g' where a: "advance_cycle self g = (s', g')" by fastforce
  have "current_phase s' \<noteq> STAGNATION"
    using advance_cycle_no_stagnation[OF Suc.prems, of g] a by simp
  then show ?case using Suc.IH a by simp
qed

lemma np25: "(next_phase ^^ 25) (GROWTH, 0) = (BOOM, 0)"
  by (simp add: eval_nat_numeral)

lemma np38: "(next_phase ^^ 38) (GROWTH, 0) = (RECESSION, 0)"
  by (simp add: eval_nat_numeral)

lemma np57: "(next_phase ^^ 57) (GROWTH, 0) = (RECOVERY, 0)"
  by (simp add: eval_nat_numeral)

lemma draw_indicators_affine:
  "gdp_growth (fst (draw_indicators gd un ir ts self g)) = uniform_value gd (g 0)"
  "unemployment_rate (fst (draw_indicators gd un ir ts self g)) = uniform_value un (g 1)"
  "interest_rates (fst (draw_indicators gd un ir ts self g)) = uniform_value ir (g 2)"
  "tech_sector_performance (fst (draw_indicators gd un ir ts self g)) = uniform_value ts (g 3)"
  "snd (draw_indicators gd un ir ts self g) = (\<lambda>n. g (n + 4))"
  by (simp_all add: draw_indicators_def random_uniform_def random_random_def take_src_def
      uniform_value_def eval_nat_numeral)

lemma update_economic_indicators_affine:
  "gdp_growth (fst (update_economic_indicators self g))
     = uniform_value (gdp_growth_range (current_phase self)) (g 0)"
  "unemployment_rate (fst (update_economic_indicators self g))
     = uniform_value (unemployment_range (current_phase self)) (g 1)"
  "interest_rates (fst (update_economic_indicators self g))
     = uniform_value (interest_range (current_phase self)) (g 2)"
  "tech_sector_performance (fst (update_economic_indicators self g))
     = uniform_value (tech_sector_range (current_phase self)) (g 3)"
  "snd (update_economic_indicators self g) = (\<lambda>n. g (n + 4))"
  by (cases "current_phase self";
      simp add: update_economic_indicators_def draw_indicators_affine)+

lemma try_transition_rng: "snd (try_transition p n self g) = (\<lambda>n. g (Suc n))"
  by (simp add: try_transition_def random_random_def take_src_def)

lemma phase_transition_rng:
  "snd (phase_transition self g) = g \<or> snd (phase_transition self g) = (\<lambda>n. g (Suc n))"
  by (simp add: phase_transition_def try_transition_rng)

text \<open>
  Claim C4, as the code has it. After the transition step, which leaves the generator as
  it was or one draw further, \<^verbatim>\<open>advance_cycle\<close> assigns gdp growth, unemployment
  rate, interest rate and sector performance the values \<^verbatim>\<open>random.uniform\<close> gives for
  the next four draws, in this order, on the literal ranges of the resulting phase, and
  leaves the generator four draws further; for draws in the unit interval each value lies
  in its range. The inflation rate and the market volatility are not drawn at all and keep
  the values they had before the call.
\<close>

theorem advance_cycle_redraws:
  "(let stepped = phase_transition (self\<lparr>phase_duration := phase_duration self + 1\<rparr>) g;
        g1 = snd stepped;
        self' = fst (advance_cycle self g);
        p = current_phase self'
    in p = current_phase (fst stepped) \<and>
       (g1 = g \<or> g1 = (\<lambda>n. g (Suc n))) \<and>
       gdp_growth self' = uniform_value (gdp_growth_range p) (g1 0) \<and>
       unemployment_rate self' = uniform_value (unemployment_range p) (g1 1) \<and>
       interest_rates self' = uniform_value (interest_range p) (g1 2) \<and>
       tech_sector_performance self' = uniform_value (tech_sector_range p) (g1 3) \<and>
       snd (advance_cycle self g) = (\<lambda>n. g1 (n + 4)) \<and>
       inflation_rate self' = inflation_rate self \<and>
       market_volatility self' = market_volatility self \<and>
       (unit_draws g \<longrightarrow>
          in_bounds (gdp_growth self') (gdp_growth_range p) \<and>
          in_bounds (unemployment_rate self') (unemployment_range p) \<and>
          in_bounds (interest_rates self') (interest_range p) \<and>
          in_bounds (tech_sector_performance self') (tech_sector_range p)))"
proof -
  let ?s = "self\<lparr>phase_duration := phase_duration self + 1\<rparr>"
  let ?s1 = "fst (phase_transition ?s g)" and ?g1 = "snd (phase_transition ?s g)"
  have b: "in_bounds (gdp_growth (fst (update_economic_indicators ?s1 ?g1)))
           (gdp_growth_range (current_phase ?s1)) \<and>
     in_bounds (unemployment_rate (fst (update_economic_indicators ?s1 ?g1)))
           (unemployment_range (current_phase ?s1)) \<and>
     in_bounds (interest_rates (fst (update_economic_indicators ?s1 ?g1)))
           (interest_range (current_phase ?s1)) \<and>
     in_bounds (tech_sector_performance (fst (update_economic_indicators ?s1 ?g1)))
           (tech_sector_range (current_phase ?s1))" if "unit_draws g"
  proof -
    have u: "unit_draws ?g1" using that by (rule phase_transition_fields(3))
    show ?thesis using update_economic_indicators_bounds[OF u, of ?s1] by simp
  qed
  show ?thesis
    unfolding Let_def advance_cycle_unfold
    using b phase_transition_rng[of ?s g]
    by (simp add: update_economic_indicators_fields update_economic_indicators_affine
        phase_transition_fields)
qed

theorem advance_cycle_redraws_witness:
  "unit_draws (\<lambda>n. 1 / (real n + 2)) \<and>
   gdp_growth (fst (advance_cycle EconomicCycleSimulator_init (\<lambda>n. 1 / (real n + 2)))) = 0.03 \<and>
   unemployment_rate (fst (advance_cycle EconomicCycleSimulator_init (\<lambda>n. 1 / (real n + 2)))) = 0.04 \<and>
   interest_rates (fst (advance_cycle EconomicCycleSimulator_init (\<lambda>n. 1 / (real n + 2)))) = 0.03 \<and>
   tech_sector_performance (fst (advance_cycle EconomicCycleSimulator_init (\<lambda>n. 1 / (real n + 2)))) = 0.74 \<and>
   in_bounds (gdp_growth (fst (advance_cycle EconomicCycleSimulator_init (\<lambda>n. 1 / (real n + 2)))))
     (gdp_growth_range GROWTH) \<and>
   inflation_rate (fst (advance_cycle EconomicCycleSimulator_init (\<lambda>n. 1 / (real n + 2)))) = 0.03"
proof -
  let ?g = "\<lambda>n::nat. 1 / (real n + 2)"
  let ?i = EconomicCycleSimulator_init
  have u: "unit_draws ?g" by (simp add: unit_draws_def)
  have t: "phase_transition (?i\<lparr>phase_duration := phase_duration ?i + 1\<rparr>) ?g
      = (?i\<lparr>phase_duration := 1\<rparr>, ?g)"
    by (simp add: phase_transition_def EconomicCycleSimulator_init_def)
  have p: "current_phase (?i\<lparr>phase_duration := 1\<rparr>) = GROWTH" "inflation_rate ?i = 0.03"
    by (simp_all add: EconomicCycleSimulator_init_def)
  note th = advance_cycle_redraws [of ?i ?g, unfolded Let_def t fst_conv snd_conv p(1)]
  have ph: "current_phase (fst (advance_cycle ?i ?g)) = GROWTH" using th by simp
  show ?thesis
    using u th [unfolded ph] by (simp add: p(2) uniform_value_def)
qed

text \<open>
  Claim C4 as stated fails: two calls from the initial state whose draws are all 0.1 and
  all 0.9 give different growth rates, yet the same inflation rate 0.03 and the same
  volatility 0.1, which are the values of \<^verbatim>\<open>__init__\<close>.
\<close>

theorem advance_cycle_redraws_counterexample:
  "gdp_growth (fst (advance_cycle EconomicCycleSimulator_init (\<lambda>_. 0.1))) = 0.022 \<and>
   gdp_growth (fst (advance_cycle EconomicCycleSimulator_init (\<lambda>_. 0.9))) = 0.038 \<and>
   inflation_rate (fst (advance_cycle EconomicCycleSimulator_init (\<lambda>_. 0.1))) = 0.03 \<and>
   inflation_rate (fst (advance_cycle EconomicCycleSimulator_init (\<lambda>_. 0.9))) = 0.03 \<and>
   market_volatility (fst (advance_cycle EconomicCycleSimulator_init (\<lambda>_. 0.1))) = 0.1 \<and>
   market_volatility (fst (advance_cycle EconomicCycleSimulator_init (\<lambda>_. 0.9))) = 0.1"
  by (simp add: advance_cycle_def phase_transition_def update_economic_indicators_def
      draw_indicators_def random_uniform_def random_random_def take_src_def
      EconomicCycleSimulator_init_def)

text \<open>
  Claim C9: from the state of \<^verbatim>\<open>__init__\<close> (phase Growth), whatever the generator
  returns, no number of \<^verbatim>\<open>advance_cycle\<close> calls gives the phase Stagnation, so the
  Stagnation branch of \<^verbatim>\<open>_update_economic_indicators\<close> is never taken; and the
  phases that some run with draws in the unit interval does reach are exactly Growth,
  Boom, Recession and Recovery.
\<close>

theorem stagnation_unreachable:
  "current_phase (fst (run_cycles n EconomicCycleSimulator_init g)) \<noteq> STAGNATION \<and>
   ((\<exists>m h. unit_draws h \<and> current_phase (fst (run_cycles m EconomicCycleSimulator_init h)) = p)
      = (p \<in> {GROWTH, BOOM, RECESSION, RECOVERY}))"
proof -
  let ?i = EconomicCycleSimulator_init
  let ?z = "\<lambda>_::nat. 0::real"
  have i: "current_phase ?i \<noteq> STAGNATION" "phase_of ?i = (GROWTH, 0)"
    by (simp_all add: EconomicCycleSimulator_init_def phase_of_def)
  have never: "current_phase (fst (run_cycles k ?i h)) \<noteq> STAGNATION" for k h
    using i(1) by (rule run_cycles_no_stagnation)
  have z: "unit_draws ?z" by (simp add: unit_draws_def)
  have at: "current_phase (fst (run_cycles k ?i ?z)) = fst ((next_phase ^^ k) (GROWTH, 0))" for k
  proof -
    have "phase_of (fst (run_cycles k ?i ?z)) = (next_phase ^^ k) (GROWTH, 0)"
      using run_cycles_zero[of k ?i] i(2) by simp
    then have "fst (phase_of (fst (run_cycles k ?i ?z))) = fst ((next_phase ^^ k) (GROWTH, 0))"
      by simp
    then show ?thesis by (simp add: phase_of_def)
  qed
  have r0: "current_phase (fst (run_cycles 0 ?i ?z)) = GROWTH"
    by (simp add: EconomicCycleSimulator_init_def)
  have r1: "current_phase (fst (run_cycles 25 ?i ?z)) = BOOM" by (simp only: at np25 fst_conv)
  have r2: "current_phase (fst (run_cycles 38 ?i ?z)) = RECESSION" by (simp only: at np38 fst_conv)
  have r3: "current_phase (fst (run_cycles 57 ?i ?z)) = RECOVERY" by (simp only: at np57 fst_conv)
  have "\<exists>m h. unit_draws h \<and> current_phase (fst (run_cycles m ?i h)) = p"
    if "p \<in> {GROWTH, BOOM, RECESSION, RECOVERY}"
    using that z r0 r1 r2 r3 by blast
  moreover have "p \<in> {GROWTH, BOOM, RECESSION, RECOVERY}"
    if "\<exists>m h. unit_draws h \<and> current_phase (fst (run_cycles m ?i h)) = p"
    using that never by (cases p) auto
  ultimately show ?thesis using never by blast
qed

section \<open>Messaging and negotiation: proofs\<close>

lemma find_first_None: "(find_first P xs = None) = (\<not> (\<exists>x. x \<in> set xs \<and> P x))"
  by (induction xs) auto

lemma find_first_Some:
  "find_first P xs = Some i \<Longrightarrow> i < length xs \<and> P (xs ! i)"
  by (induction xs arbitrary: i) (auto split: if_splits)

lemma send_message_result:
  "fst (send_message self env s r t sj c p md) = uuids env 0"
  "messages (fst (snd (send_message self env s r t sj c p md))) =
     messages self @ [new_message env s r t sj c p md]"
  "message_queues (fst (snd (send_message self env s r t sj c p md))) =
     (message_queues self)(r \<mapsto>
        (case message_queues self r of None \<Rightarrow> [] | Some q \<Rightarrow> q) @ [length (messages self)])"
  by (simp_all add: send_message_def send_notification_def uuid4_def datetime_now_def
      new_message_def Let_def split: prod.splits)

lemma get_messages_sent:
  "new_message env s r t sj c p md \<in>
     set (get_messages (fst (snd (send_message self env s r t sj c p md))) r False)"
  by (simp add: get_messages_def send_message_result Let_def)

lemma fixture_inbox_eq:
  "fixture_inbox =
    (\<lparr>messages = [\<lparr>msg_id = ''u'', sender_id = ''alice'', receiver_id = ''bob'',
        message_type = STATUS_UPDATE, subject = ''report'', content = ''done'',
        priority = MEDIUM, created_at = 100, read_at = None, responded_at = None,
        metadata = []\<rparr>],
      message_queues = [''bob'' \<mapsto> [0]],
      notification_system = \<lparr>notifications = []\<rparr>\<rparr>,
     \<lparr>uuids = (\<lambda>n. replicate (Suc (Suc n)) CHR ''u''), clock = (\<lambda>n. 100 + Suc n)\<rparr>)"
  by (simp add: fixture_inbox_def fixture_env_def send_message_def uuid4_def datetime_now_def
      CommunicationSystem_init_def Let_def)

text \<open>
  Claim C10: \<^verbatim>\<open>mark_message_read\<close> returns true exactly when some message carries
  both the given id and the given reader as its receiver, and then sets the read time of
  the first such message to the clock reading; when no message with that id has the
  reader as receiver (with unique ids: the message exists and the reader is not its
  receiver) it returns false, and neither the system nor the clock changes.
\<close>

theorem mark_message_read_receiver_only:
  "(fst (mark_message_read self env mid rid) =
      (\<exists>m. m \<in> set (messages self) \<and> msg_id m = mid \<and> receiver_id m = rid)) \<and>
   (fst (mark_message_read self env mid rid) \<longrightarrow>
      (\<exists>i. i < length (messages self) \<and> msg_id (messages self ! i) = mid \<and>
           receiver_id (messages self ! i) = rid \<and>
           fst (snd (mark_message_read self env mid rid)) =
             self\<lparr>messages := (messages self)[i := (messages self ! i)\<lparr>read_at := Some (clock env 0)\<rparr>]\<rparr>)) \<and>
   (\<not> (\<exists>m. m \<in> set (messages self) \<and> msg_id m = mid \<and> receiver_id m = rid) \<longrightarrow>
      mark_message_read self env mid rid = (False, self, env))"
proof -
  let ?P = "\<lambda>message. msg_id message = mid \<and> receiver_id message = rid"
  show ?thesis
  proof (cases "find_first ?P (messages self)")
    case None
    then have n: "\<not> (\<exists>m. m \<in> set (messages self) \<and> ?P m)" by (simp add: find_first_None)
    have "mark_message_read self env mid rid = (False, self, env)"
      using None by (simp add: mark_message_read_def)
    then show ?thesis using n by simp
  next
    case (Some i)
    then have i: "i < length (messages self)" "?P (messages self ! i)"
      using find_first_Some[of ?P "messages self" i] by simp_all
    then have e: "\<exists>m. m \<in> set (messages self) \<and> ?P m" using nth_mem by blast
    have "mark_message_read self env mid rid =
        (True, self\<lparr>messages := (messages self)[i := (messages self ! i)\<lparr>read_at := Some (clock env 0)\<rparr>]\<rparr>,
         env\<lparr>clock := \<lambda>n. clock env (Suc n)\<rparr>)"
      using Some by (simp add: mark_message_read_def datetime_now_def)
    then show ?thesis using i e by auto
  qed
qed

theorem mark_message_read_receiver_only_witness:
  "\<not> fst (mark_message_read (fst fixture_inbox) (snd fixture_inbox) ''u'' ''carol'') \<and>
   mark_message_read (fst fixture_inbox) (snd fixture_inbox) ''u'' ''carol''
     = (False, fst fixture_inbox, snd fixture_inbox) \<and>
   fst (mark_message_read (fst fixture_inbox) (snd fixture_inbox) ''u'' ''bob'') \<and>
   map read_at (messages (fst (snd
      (mark_message_read (fst fixture_inbox) (snd fixture_inbox) ''u'' ''bob'')))) = [Some 101]"
proof -
  have no: "\<not> (\<exists>m. m \<in> set (messages (fst fixture_inbox)) \<and> msg_id m = ''u'' \<and> receiver_id m = ''carol'')"
    by (simp add: fixture_inbox_eq)
  have yes: "\<exists>m. m \<in> set (messages (fst fixture_inbox)) \<and> msg_id m = ''u'' \<and> receiver_id m = ''bob''"
    by (simp add: fixture_inbox_eq)
  from mark_message_read_receiver_only
    [of "fst fixture_inbox" "snd fixture_inbox" "''u''" "''carol''"] no
  have a: "mark_message_read (fst fixture_inbox) (snd fixture_inbox) ''u'' ''carol''
     = (False, fst fixture_inbox, snd fixture_inbox)" by blast
  from mark_message_read_receiver_only
    [of "fst fixture_inbox" "snd fixture_inbox" "''u''" "''bob''"] yes
  obtain i where b: "fst (mark_message_read (fst fixture_inbox) (snd fixture_inbox) ''u'' ''bob'')"
    and i: "i < length (messages (fst fixture_inbox))"
    and c: "fst (snd (mark_message_read (fst fixture_inbox) (snd fixture_inbox) ''u'' ''bob'')) =
      (fst fixture_inbox)\<lparr>messages := (messages (fst fixture_inbox))
         [i := (messages (fst fixture_inbox) ! i)\<lparr>read_at := Some (clock (snd fixture_inbox) 0)\<rparr>]\<rparr>"
    by blast
  from i have i0: "i = 0" by (simp add: fixture_inbox_eq)
  show ?thesis using a b by (simp add: c i0) (simp add: fixture_inbox_eq)
qed

lemma respond_to_message_None:
  "find_first (\<lambda>msg. msg_id msg = oid) (messages self) = None \<Longrightarrow>
   respond_to_message self env oid c s = (None, self, env)"
  by (simp add: respond_to_message_def)

lemma respond_to_message_Some:
  assumes "find_first (\<lambda>msg. msg_id msg = oid) (messages self) = Some i"
  shows "fst (respond_to_message self env oid c s) = Some (uuids env 0)"
    "messages (fst (snd (respond_to_message self env oid c s))) =
       (messages self)[i := (messages self ! i)\<lparr>responded_at := Some (clock env 0)\<rparr>] @
       [new_message (env\<lparr>clock := \<lambda>n. clock env (Suc n)\<rparr>) s (sender_id (messages self ! i))
          GENERAL_COMMUNICATION (''Re: '' @ subject (messages self ! i)) c
          (priority (messages self ! i)) [(''in_reply_to'', Str oid)]]"
    "message_queues (fst (snd (respond_to_message self env oid c s))) =
       (message_queues self)(sender_id (messages self ! i) \<mapsto>
          (case message_queues self (sender_id (messages self ! i)) of None \<Rightarrow> [] | Some q \<Rightarrow> q)
            @ [length (messages self)])"
  using assms
  by (simp_all add: respond_to_message_def datetime_now_def Let_def send_message_result
      case_prod_beta)

text \<open>
  Claim C7: \<^verbatim>\<open>respond_to_message\<close> returns None exactly when no message has the
  original id, and then changes nothing. When one has, whatever its responded time was
  before, the responded time of the first message with that id becomes the clock reading
  of this call (the last responder wins); a response from the responder to the sender of
  the original, with the subject prefixed by \<open>Re: \<close>, the given content, the priority of
  the original and a reference to the original id, is appended to the messages and queued
  for its receiver; and the call returns the id of that response.
\<close>

theorem respond_to_message_none_iff_unknown:
  "((fst (respond_to_message self env oid c s) = None) = (oid \<notin> set (map msg_id (messages self)))) \<and>
   (oid \<notin> set (map msg_id (messages self)) \<longrightarrow>
      respond_to_message self env oid c s = (None, self, env)) \<and>
   (oid \<in> set (map msg_id (messages self)) \<longrightarrow>
      (\<exists>i. i < length (messages self) \<and> msg_id (messages self ! i) = oid \<and>
           find_first (\<lambda>msg. msg_id msg = oid) (messages self) = Some i \<and>
           fst (respond_to_message self env oid c s) = Some (uuids env 0) \<and>
           responded_at (messages (fst (snd (respond_to_message self env oid c s))) ! i)
             = Some (clock env 0) \<and>
           messages (fst (snd (respond_to_message self env oid c s))) =
             (messages self)[i := (messages self ! i)\<lparr>responded_at := Some (clock env 0)\<rparr>] @
             [\<lparr>msg_id = uuids env 0, sender_id = s, receiver_id = sender_id (messages self ! i),
               message_type = GENERAL_COMMUNICATION,
               subject = ''Re: '' @ subject (messages self ! i), content = c,
               priority = priority (messages self ! i), created_at = clock env 1,
               read_at = None, responded_at = None,
               metadata = [(''in_reply_to'', Str oid)]\<rparr>] \<and>
           message_queues (fst (snd (respond_to_message self env oid c s))) =
             (message_queues self)(sender_id (messages self ! i) \<mapsto>
                (case message_queues self (sender_id (messages self ! i)) of
                   None \<Rightarrow> [] | Some q \<Rightarrow> q) @ [length (messages self)])))"
proof (cases "find_first (\<lambda>msg. msg_id msg = oid) (messages self)")
  case None
  then have "oid \<notin> set (map msg_id (messages self))"
    by (auto simp: find_first_None)
  then show ?thesis using respond_to_message_None[OF None, of env c s] by simp
next
  case (Some i)
  then have i: "i < length (messages self)" "msg_id (messages self ! i) = oid"
    using find_first_Some[of "\<lambda>msg. msg_id msg = oid" "messages self" i] by simp_all
  then have k: "oid \<in> set (map msg_id (messages self))"
    by (metis length_map nth_map nth_mem)
  note m = respond_to_message_Some(2)[OF Some, of env c s]
  have r: "responded_at (messages (fst (snd (respond_to_message self env oid c s))) ! i)
             = Some (clock env 0)"
    using i(1) by (simp add: m nth_append)
  have m': "messages (fst (snd (respond_to_message self env oid c s))) =
             (messages self)[i := (messages self ! i)\<lparr>responded_at := Some (clock env 0)\<rparr>] @
             [\<lparr>msg_id = uuids env 0, sender_id = s, receiver_id = sender_id (messages self ! i),
               message_type = GENERAL_COMMUNICATION,
               subject = ''Re: '' @ subject (messages self ! i), content = c,
               priority = priority (messages self ! i), created_at = clock env 1,
               read_at = None, responded_at = None,
               metadata = [(''in_reply_to'', Str oid)]\<rparr>]"
    by (simp add: m new_message_def)
  have n: "fst (respond_to_message self env oid c s) \<noteq> None"
    by (simp add: respond_to_message_Some(1)[OF Some])
  show ?thesis
    using i k r m' n Some respond_to_message_Some(1)[OF Some, of env c s]
      respond_to_message_Some(3)[OF Some, of env c s]
    by blast
qed

lemma fixture_replied_eq:
  "fixture_replied =
    (Some ''uu'',
     \<lparr>messages = [\<lparr>msg_id = ''u'', sender_id = ''alice'', receiver_id = ''bob'',
        message_type = STATUS_UPDATE, subject = ''report'', content = ''done'',
        priority = MEDIUM, created_at = 100, read_at = None, responded_at = Some 101,
        metadata = []\<rparr>,
       \<lparr>msg_id = ''uu'', sender_id = ''bob'', receiver_id = ''alice'',
        message_type = GENERAL_COMMUNICATION, subject = ''Re: report'', content = ''thanks'',
        priority = MEDIUM, created_at = 102, read_at = None, responded_at = None,
        metadata = [(''in_reply_to'', Str ''u'')]\<rparr>],
      message_queues = [''bob'' \<mapsto> [0], ''alice'' \<mapsto> [1]],
      notification_system = \<lparr>notifications = []\<rparr>\<rparr>,
     \<lparr>uuids = (\<lambda>n. replicate (Suc (Suc (Suc n))) CHR ''u''),
      clock = (\<lambda>n. 100 + Suc (Suc (Suc n)))\<rparr>)"
  by (simp add: fixture_replied_def fixture_inbox_eq respond_to_message_def send_message_def
      uuid4_def datetime_now_def Let_def)

theorem respond_to_message_none_iff_unknown_witness:
  "fst fixture_replied = Some ''uu'' \<and>
   responded_at (messages (fst (snd fixture_replied)) ! 0) = Some 101 \<and>
   fst (respond_to_message (fst (snd fixture_replied)) (snd (snd fixture_replied))
          ''u'' ''again'' ''carol'') = Some ''uuu'' \<and>
   responded_at (messages (fst (snd
       (respond_to_message (fst (snd fixture_replied)) (snd (snd fixture_replied))
          ''u'' ''again'' ''carol''))) ! 0) = Some 103 \<and>
   map msg_id (messages (fst (snd
       (respond_to_message (fst (snd fixture_replied)) (snd (snd fixture_replied))
          ''u'' ''again'' ''carol'')))) = [''u'', ''uu'', ''uuu''] \<and>
   map receiver_id (get_messages (fst (snd
       (respond_to_message (fst (snd fixture_replied)) (snd (snd fixture_replied))
          ''u'' ''again'' ''carol''))) ''alice'' False) = [''alice'', ''alice''] \<and>
   respond_to_message (fst (snd fixture_replied)) (snd (snd fixture_replied))
          ''missing'' ''again'' ''carol''
     = (None, fst (snd fixture_replied), snd (snd fixture_replied))"
proof -
  let ?cs = "fst (snd fixture_replied)" and ?env = "snd (snd fixture_replied)"
  let ?out = "respond_to_message ?cs ?env ''u'' ''again'' ''carol''"
  have known: "''u'' \<in> set (map msg_id (messages ?cs))"
    and unknown: "''missing'' \<notin> set (map msg_id (messages ?cs))"
    by (simp_all add: fixture_replied_eq)
  from respond_to_message_none_iff_unknown [of ?cs ?env "''u''" "''again''" "''carol''"] known
  obtain i where i: "i < length (messages ?cs)" "msg_id (messages ?cs ! i) = ''u''"
    and r: "fst ?out = Some (uuids ?env 0)"
      "responded_at (messages (fst (snd ?out)) ! i) = Some (clock ?env 0)"
      "messages (fst (snd ?out)) =
             (messages ?cs)[i := (messages ?cs ! i)\<lparr>responded_at := Some (clock ?env 0)\<rparr>] @
             [\<lparr>msg_id = uuids ?env 0, sender_id = ''carol'', receiver_id = sender_id (messages ?cs ! i),
               message_type = GENERAL_COMMUNICATION,
               subject = ''Re: '' @ subject (messages ?cs ! i), content = ''again'',
               priority = priority (messages ?cs ! i), created_at = clock ?env 1,
               read_at = None, responded_at = None,
               metadata = [(''in_reply_to'', Str ''u'')]\<rparr>]"
      "message_queues (fst (snd ?out)) =
             (message_queues ?cs)(sender_id (messages ?cs ! i) \<mapsto>
                (case message_queues ?cs (sender_id (messages ?cs ! i)) of
                   None \<Rightarrow> [] | Some q \<Rightarrow> q) @ [length (messages ?cs)])"
    by blast
  have i0: "i = 0" using i by (cases i) (simp_all add: fixture_replied_eq)
  have n: "respond_to_message ?cs ?env ''missing'' ''again'' ''carol'' = (None, ?cs, ?env)"
    using respond_to_message_none_iff_unknown [of ?cs ?env "''missing''" "''again''" "''carol''"]
      unknown by blast
  have e: "uuids ?env 0 = ''uuu''" "clock ?env 0 = 103"
    by (simp_all add: fixture_replied_eq)
  have ids: "map msg_id (messages (fst (snd ?out))) = [''u'', ''uu'', ''uuu'']"
    unfolding r(3) i0 e by (simp add: fixture_replied_eq)
  have q: "map receiver_id (get_messages (fst (snd ?out)) ''alice'' False) = [''alice'', ''alice'']"
    unfolding get_messages_def Let_def r(3) r(4) i0 e by (simp add: fixture_replied_eq)
  show ?thesis using r(1,2) n ids q unfolding i0 e by (simp add: fixture_replied_eq)
qed

lemma send_message_queued:
  "\<exists>q. message_queues (fst (snd (send_message self env s r t sj c p md))) r = Some q \<and>
       length (messages self) \<in> set q"
  by (simp add: send_message_result)

lemma send_message_queue_kept:
  "message_queues self a = Some q \<Longrightarrow> n \<in> set q \<Longrightarrow>
   \<exists>q'. message_queues (fst (snd (send_message self env s r t sj c p md))) a = Some q' \<and> n \<in> set q'"
  by (auto simp: send_message_result)

lemma send_message_twice:
  "messages (fst (snd (send_message
        (fst (snd (send_message cs env s1 r1 t1 sj1 c1 p1 md1)))
        (snd (snd (send_message cs env s1 r1 t1 sj1 c1 p1 md1))) s2 r2 t2 sj2 c2 p2 md2)))
     = messages cs @
       [new_message env s1 r1 t1 sj1 c1 p1 md1,
        new_message (snd (snd (send_message cs env s1 r1 t1 sj1 c1 p1 md1))) s2 r2 t2 sj2 c2 p2 md2]"
  by (simp add: send_message_result(2))

lemma new_message_fields:
  "sender_id (new_message env s r t sj c p md) = s"
  "receiver_id (new_message env s r t sj c p md) = r"
  "message_type (new_message env s r t sj c p md) = t"
  "subject (new_message env s r t sj c p md) = sj"
  "content (new_message env s r t sj c p md) = c"
  "priority (new_message env s r t sj c p md) = p"
  by (simp_all add: new_message_def)

lemma notify_participants_raises:
  "\<not> serialisable res \<Longrightarrow>
   notify_participants render cs env (a # rest) sj res = (Inl TypeError, cs, env)"
  by (simp add: json_dumps_def)

lemma notify_participants_two:
  "serialisable res \<Longrightarrow>
   notify_participants render cs env [a, b] sj res =
     (Inr (),
      snd (send_message
            (fst (snd (send_message cs env ''system'' a DECISION_NOTIFICATION sj
                         (''Resolution: '' @ render res) HIGH [])))
            (snd (snd (send_message cs env ''system'' a DECISION_NOTIFICATION sj
                         (''Resolution: '' @ render res) HIGH [])))
            ''system'' b DECISION_NOTIFICATION sj (''Resolution: '' @ render res) HIGH []))"
  by (simp add: json_dumps_def case_prod_beta)

lemma notify_participants_messages:
  assumes "serialisable res"
  shows "fst (notify_participants render cs env [a, b] sj res) = Inr () \<and>
   (\<exists>m1 m2. messages (fst (snd (notify_participants render cs env [a, b] sj res)))
              = messages cs @ [m1, m2] \<and>
     sender_id m1 = ''system'' \<and> receiver_id m1 = a \<and> message_type m1 = DECISION_NOTIFICATION \<and>
     subject m1 = sj \<and> content m1 = ''Resolution: '' @ render res \<and> priority m1 = HIGH \<and>
     sender_id m2 = ''system'' \<and> receiver_id m2 = b \<and> message_type m2 = DECISION_NOTIFICATION \<and>
     subject m2 = sj \<and> content m2 = ''Resolution: '' @ render res \<and> priority m2 = HIGH \<and>
     m1 \<in> set (get_messages (fst (snd (notify_participants render cs env [a, b] sj res))) a False) \<and>
     m2 \<in> set (get_messages (fst (snd (notify_participants render cs env [a, b] sj res))) b False))"
proof -
  let ?c = "''Resolution: '' @ render res"
  let ?s1 = "send_message cs env ''system'' a DECISION_NOTIFICATION sj ?c HIGH []"
  let ?cs1 = "fst (snd ?s1)" and ?env1 = "snd (snd ?s1)"
  let ?s2 = "send_message ?cs1 ?env1 ''system'' b DECISION_NOTIFICATION sj ?c HIGH []"
  let ?cs2 = "fst (snd ?s2)"
  let ?m1 = "new_message env ''system'' a DECISION_NOTIFICATION sj ?c HIGH []"
  let ?m2 = "new_message ?env1 ''system'' b DECISION_NOTIFICATION sj ?c HIGH []"
  have n: "notify_participants render cs env [a, b] sj res = (Inr (), snd ?s2)"
    using assms by (rule notify_participants_two)
  have m: "messages ?cs2 = messages cs @ [?m1, ?m2]"
    by (rule send_message_twice)
  obtain q where q: "message_queues ?cs1 a = Some q" "length (messages cs) \<in> set q"
    using send_message_queued[of cs env "''system''" a] by blast
  obtain q' where q': "message_queues ?cs2 a = Some q'" "length (messages cs) \<in> set q'"
    using send_message_queue_kept[OF q] by blast
  have "messages ?cs2 ! length (messages cs) = ?m1" unfolding m by simp
  then have g1: "?m1 \<in> set (get_messages ?cs2 a False)"
    using q' by (force simp: get_messages_def Let_def)
  have g2: "?m2 \<in> set (get_messages ?cs2 b False)"
    by (rule get_messages_sent)
  show ?thesis
    unfolding n fst_conv snd_conv using m g1 g2
    by (intro conjI refl exI[of _ ?m1] exI[of _ ?m2] new_message_fields)
qed

lemma resolve_negotiation_unknown:
  "active_negotiations self nid = None \<Longrightarrow>
   resolve_negotiation render self env nid res = (Inr False, self, env)"
  by (simp add: resolve_negotiation_def)

lemma resolve_negotiation_raises:
  "active_negotiations self nid = Some neg \<Longrightarrow> \<not> serialisable res \<Longrightarrow>
   resolve_negotiation render self env nid res =
     (Inl TypeError,
      self\<lparr>resolution_history := resolution_history self @
              [neg\<lparr>status := ''resolved'', resolution := Some res, resolved_at := Some (clock env 0)\<rparr>],
           active_negotiations := (active_negotiations self)(nid := None)\<rparr>,
      env\<lparr>clock := \<lambda>n. clock env (Suc n)\<rparr>)"
  by (simp add: resolve_negotiation_def datetime_now_def Let_def json_dumps_def)

lemma resolve_negotiation_unfold:
  "active_negotiations self nid = Some neg \<Longrightarrow> serialisable res \<Longrightarrow>
   resolve_negotiation render self env nid res =
     (Inr True,
      self\<lparr>resolution_history := resolution_history self @
              [neg\<lparr>status := ''resolved'', resolution := Some res, resolved_at := Some (clock env 0)\<rparr>],
           active_negotiations := (active_negotiations self)(nid := None),
           communication_system :=
             fst (snd (notify_participants render (communication_system self)
                    (env\<lparr>clock := \<lambda>n. clock env (Suc n)\<rparr>) [initiator neg, other_party neg]
                    (''Negotiation Resolved: '' @ topic neg) res))\<rparr>,
      snd (snd (notify_participants render (communication_system self)
             (env\<lparr>clock := \<lambda>n. clock env (Suc n)\<rparr>) [initiator neg, other_party neg]
             (''Negotiation Resolved: '' @ topic neg) res)))"
proof -
  assume a: "active_negotiations self nid = Some neg" and s: "serialisable res"
  let ?n = "notify_participants render (communication_system self)
             (env\<lparr>clock := \<lambda>n. clock env (Suc n)\<rparr>) [initiator neg, other_party neg]
             (''Negotiation Resolved: '' @ topic neg) res"
  have f: "fst ?n = Inr ()" using notify_participants_messages[OF s] by blast
  then obtain cs e where n: "?n = (Inr (), cs, e)" by (metis prod.collapse)
  show ?thesis
    using a n by (simp add: resolve_negotiation_def datetime_now_def Let_def
        del: notify_participants.simps)
qed

lemma resolve_negotiation_inactive:
  "active_negotiations (fst (snd (resolve_negotiation render self env nid res))) nid = None"
proof (cases "active_negotiations self nid")
  case None
  then show ?thesis by (simp add: resolve_negotiation_unknown)
next
  case (Some neg)
  show ?thesis
    by (cases "serialisable res")
      (simp_all add: resolve_negotiation_unfold[OF Some] resolve_negotiation_raises[OF Some]
        del: notify_participants.simps)
qed


lemma fixture_countered_facts:
  "fst fixture_countered = Inr True"
  "active_negotiations (fst (snd fixture_countered)) ''u'' =
     Some \<lparr>neg_id = ''u'', initiator = ''alice'', other_party = ''bob'', topic = ''budget'',
           status = ''active'',
           proposals = [[(''amount'', Num 10)],
                        [(''amount'', Num 8), (''proposed_by'', Str ''bob''), (''timestamp'', Stamp 103)]],
           neg_created_at = 100, resolution = None, resolved_at = None\<rparr>"
  "active_negotiations (fst (snd fixture_countered)) ''missing'' = None"
  "resolution_history (fst (snd fixture_countered)) = []"
  "map receiver_id (messages (communication_system (fst (snd fixture_countered)))) = [''bob'', ''alice'']"
  "clock (snd (snd fixture_countered)) 0 = 106"
  by (simp_all add: fixture_countered_def initiate_negotiation_def add_counter_proposal_def
      NegotiationSystem_init_def CommunicationSystem_init_def fixture_env_def
      json_dumps_def serialisable_def
      send_message_def send_notification_def uuid4_def datetime_now_def Let_def)

text \<open>
  Claim C5: \<^verbatim>\<open>add_counter_proposal\<close> with an id that is not active returns false
  and leaves the negotiation system, the messages and the ambient sources as they were;
  and after \<^verbatim>\<open>resolve_negotiation\<close> on an id, whether that call returned or raised,
  that id is rejected in this way, at any later reading of the ambient sources.
\<close>

theorem add_counter_proposal_rejected:
  "(active_negotiations self nid = None \<longrightarrow>
      add_counter_proposal render self env nid agent p = (Inr False, self, env)) \<and>
   (let self' = fst (snd (resolve_negotiation render self env nid res)) in
      add_counter_proposal render self' env' nid agent p = (Inr False, self', env'))"
  using resolve_negotiation_inactive[of render self env nid res]
  by (simp add: add_counter_proposal_def Let_def)



theorem add_counter_proposal_rejected_witness:
  "add_counter_proposal fixture_dumps (fst (snd fixture_countered)) (snd (snd fixture_countered))
      ''missing'' ''bob'' [(''amount'', Num 7)]
     = (Inr False, fst (snd fixture_countered), snd (snd fixture_countered)) \<and>
   fst (resolve_negotiation fixture_dumps (fst (snd fixture_countered))
          (snd (snd fixture_countered)) ''u'' [(''amount'', Num 9)]) = Inr True \<and>
   (let out = resolve_negotiation fixture_dumps (fst (snd fixture_countered))
                (snd (snd fixture_countered)) ''u'' [(''amount'', Num 9)]
    in add_counter_proposal fixture_dumps (fst (snd out)) (snd (snd out))
         ''u'' ''bob'' [(''amount'', Num 7)] = (Inr False, fst (snd out), snd (snd out)))"
proof -
  let ?ns = "fst (snd fixture_countered)" and ?env = "snd (snd fixture_countered)"
  have ser: "serialisable [(''amount'', Num 9)]" by (simp add: serialisable_def)
  have a: "add_counter_proposal fixture_dumps ?ns ?env ''missing'' ''bob'' [(''amount'', Num 7)]
     = (Inr False, ?ns, ?env)"
    using add_counter_proposal_rejected
      [of ?ns "''missing''" fixture_dumps ?env "''bob''" "[(''amount'', Num 7)]"]
      fixture_countered_facts(3) by blast
  have b: "fst (resolve_negotiation fixture_dumps ?ns ?env ''u'' [(''amount'', Num 9)]) = Inr True"
    by (simp add: resolve_negotiation_unfold[OF fixture_countered_facts(2) ser]
        del: notify_participants.simps)
  have c: "let out = resolve_negotiation fixture_dumps ?ns ?env ''u'' [(''amount'', Num 9)]
    in add_counter_proposal fixture_dumps (fst (snd out)) (snd (snd out))
         ''u'' ''bob'' [(''amount'', Num 7)] = (Inr False, fst (snd out), snd (snd out))"
    using add_counter_proposal_rejected
      [of ?ns "''u''" fixture_dumps ?env "''bob''" "[(''amount'', Num 7)]" "[(''amount'', Num 9)]"
        "snd (snd (resolve_negotiation fixture_dumps ?ns ?env ''u'' [(''amount'', Num 9)]))"]
    by (simp add: Let_def)
  show ?thesis using a b c by blast
qed

section \<open>Market dynamics: proofs\<close>

lemma shares_simps [simp]:
  "shares [] = []"
  "shares ((c, d) # l) = share d # shares l"
  by (simp_all add: shares_def)

lemma clamp_share:
  "1 \<le> max (1/100) (min (4/5) (x::real)) * 100"
  "max (1/100) (min (4/5) (x::real)) * 5 \<le> 4"
  by (simp_all add: max_def min_def)

lemma perturb_shares_clamped:
  "perturb_shares gdp l g = (l1, g1) \<Longrightarrow>
   map fst l1 = map fst l \<and> (\<forall>s \<in> set (shares l1). 0.01 \<le> s \<and> s \<le> 0.8)"
proof (induction l arbitrary: g l1 g1)
  case Nil
  then show ?case by simp
next
  case (Cons x l)
  obtain c d where x: "x = (c, d)" by (cases x)
  obtain ch g' where u: "random_uniform (- (1/50)) (1/50) g = (ch, g')" by fastforce
  obtain r g'' where p: "perturb_shares gdp l g' = (r, g'')" by fastforce
  from Cons.IH[OF p] Cons.prems show ?case
    by (auto simp: x u p Let_def clamp_share)
qed

lemma sum_list_ge:
  "\<forall>s \<in> set xs. (c::real) \<le> s \<Longrightarrow> c * real (length xs) \<le> sum_list xs"
  by (induction xs) (auto simp: algebra_simps)

lemma shares_total_pos:
  assumes "l \<noteq> []" "\<forall>s \<in> set (shares l). 0.01 \<le> s"
  shows "0 < sum_list (shares l)"
proof -
  have "0 < length (shares l)" using assms(1) by (simp add: shares_def)
  then have "0 < 0.01 * real (length (shares l))" by simp
  also have "\<dots> \<le> sum_list (shares l)" using assms(2) by (rule sum_list_ge)
  finally show ?thesis .
qed

lemma shares_normalized:
  "shares (map (\<lambda>(competitor, data). (competitor, data\<lparr>share := share data / t\<rparr>)) l)
     = map (\<lambda>s. s / t) (shares l)"
  by (induction l) (auto simp: shares_def)

lemma sum_list_divide: "sum_list (map (\<lambda>s. s / t) xs) = sum_list xs / (t::real)"
  by (induction xs) (simp_all add: add_divide_distrib)

lemma member_le_sum_list:
  "\<forall>s \<in> set xs. (0::real) \<le> s \<Longrightarrow> x \<in> set xs \<Longrightarrow> x \<le> sum_list xs"
proof (induction xs)
  case Nil
  then show ?case by simp
next
  case (Cons a xs)
  have "0 \<le> sum_list xs" using Cons.prems(1) by (simp add: sum_list_nonneg)
  then show ?case using Cons by auto
qed

lemma normalize_shares_ok:
  assumes "l \<noteq> []" "\<forall>s \<in> set (shares l). 0.01 \<le> s"
  shows "\<exists>l2. normalize_shares l = Inr l2 \<and> map fst l2 = map fst l \<and>
           shares l2 = map (\<lambda>s. s / sum_list (shares l)) (shares l) \<and>
           sum_list (shares l2) = 1 \<and> (\<forall>s \<in> set (shares l2). 0 < s \<and> s \<le> 1)"
proof -
  let ?t = "sum_list (shares l)"
  let ?l2 = "map (\<lambda>(competitor, data). (competitor, data\<lparr>share := share data / ?t\<rparr>)) l"
  have t: "0 < ?t" using assms by (rule shares_total_pos)
  have n: "normalize_shares l = Inr ?l2"
    using t by (simp add: normalize_shares_def shares_def Let_def)
  have f: "map fst ?l2 = map fst l" by (induction l) auto
  have s: "shares ?l2 = map (\<lambda>s. s / ?t) (shares l)" by (rule shares_normalized)
  have one: "sum_list (shares ?l2) = 1" using t by (simp add: s sum_list_divide)
  have nn: "\<forall>s \<in> set (shares l). 0 \<le> s" using assms(2) by auto
  have b: "0 < s \<and> s \<le> 1" if "s \<in> set (shares ?l2)" for s
  proof -
    from that obtain x where x: "x \<in> set (shares l)" "s = x / ?t" by (auto simp: s)
    have "0 < x" using assms(2) x(1) by force
    moreover have "x \<le> ?t" using nn x(1) by (rule member_le_sum_list)
    ultimately show ?thesis using t x(2) by simp
  qed
  show ?thesis using n f s one b by blast
qed

text \<open>
  Claim C1: when the conditions carry a numeric growth rate and the landscape has at least
  one competitor, \<^verbatim>\<open>_update_competitive_landscape\<close> returns; every share lies between
  0.01 and 0.8 after the first loop, before the division; the competitors are the same;
  and after the division the shares sum to 1 and each lies between 0 and 1.
\<close>

theorem update_competitive_landscape_normalized:
  assumes "dict_index_num market_conditions ''gdp_growth'' = Inr gdp" and "l \<noteq> []"
  shows "\<exists>l1 l2 g1.
     perturb_shares gdp l g = (l1, g1) \<and>
     update_competitive_landscape l market_conditions g = Inr (l2, g1) \<and>
     (\<forall>s \<in> set (shares l1). 0.01 \<le> s \<and> s \<le> 0.8) \<and>
     shares l2 = map (\<lambda>s. s / sum_list (shares l1)) (shares l1) \<and>
     map fst l2 = map fst l \<and>
     sum_list (shares l2) = 1 \<and>
     (\<forall>s \<in> set (shares l2). 0 \<le> s \<and> s \<le> 1)"
proof -
  obtain l1 g1 where p: "perturb_shares gdp l g = (l1, g1)" by fastforce
  have c: "map fst l1 = map fst l" "\<forall>s \<in> set (shares l1). 0.01 \<le> s \<and> s \<le> 0.8"
    using perturb_shares_clamped[OF p] by simp_all
  have ne: "l1 \<noteq> []" using c(1) assms(2) by auto
  have lo: "\<forall>s \<in> set (shares l1). 0.01 \<le> s" using c(2) by simp
  obtain l2 where n: "normalize_shares l1 = Inr l2" "map fst l2 = map fst l1"
      "shares l2 = map (\<lambda>s. s / sum_list (shares l1)) (shares l1)"
      "sum_list (shares l2) = 1" "\<forall>s \<in> set (shares l2). 0 < s \<and> s \<le> 1"
    using normalize_shares_ok[OF ne lo] by blast
  have u: "update_competitive_landscape l market_conditions g = Inr (l2, g1)"
    by (simp add: update_competitive_landscape_def assms(1) p n(1))
  have "\<forall>s \<in> set (shares l2). 0 \<le> s \<and> s \<le> 1" using n(5) by force
  then show ?thesis using p u c n by auto
qed

theorem update_competitive_landscape_normalized_witness:
  "\<exists>l2 g1.
     update_competitive_landscape initial_competitive_landscape
       (get_market_conditions EconomicCycleSimulator_init) (\<lambda>_. 3/4) = Inr (l2, g1) \<and>
     map fst l2 = [''market_leader'', ''challenger_1'', ''challenger_2'', ''our_company'', ''others''] \<and>
     shares l2 = [0.36 / 1.05, 0.26 / 1.05, 0.21 / 1.05, 0.06 / 1.05, 0.16 / 1.05] \<and>
     sum_list (shares l2) = 1"
proof -
  let ?mc = "get_market_conditions EconomicCycleSimulator_init"
  have h1: "dict_index_num ?mc ''gdp_growth'' = Inr 0.025"
    by (simp add: dict_index_num_def get_market_conditions_def EconomicCycleSimulator_init_def)
  have h2: "initial_competitive_landscape \<noteq> []"
    by (simp add: initial_competitive_landscape_def)
  have p: "shares (fst (perturb_shares 0.025 initial_competitive_landscape (\<lambda>_. 3/4)))
      = [0.36, 0.26, 0.21, 0.06, 0.16]"
    by (simp add: initial_competitive_landscape_def random_uniform_def random_random_def
        take_src_def Let_def)
  from update_competitive_landscape_normalized [OF h1 h2, of "\<lambda>_. 3/4"]
  obtain l1 l2 g1 where
    r: "perturb_shares 0.025 initial_competitive_landscape (\<lambda>_. 3/4) = (l1, g1)"
      "update_competitive_landscape initial_competitive_landscape ?mc (\<lambda>_. 3/4) = Inr (l2, g1)"
      "shares l2 = map (\<lambda>s. s / sum_list (shares l1)) (shares l1)"
      "map fst l2 = map fst initial_competitive_landscape"
      "sum_list (shares l2) = 1"
    by blast
  have l1: "shares l1 = [0.36, 0.26, 0.21, 0.06, 0.16]" using p r(1) by simp
  have s: "shares l2 = [0.36 / 1.05, 0.26 / 1.05, 0.21 / 1.05, 0.06 / 1.05, 0.16 / 1.05]"
    unfolding r(3) l1 by simp
  have n: "map fst l2 = [''market_leader'', ''challenger_1'', ''challenger_2'', ''our_company'', ''others'']"
    unfolding r(4) by (simp add: initial_competitive_landscape_def)
  show ?thesis
    by (rule exI[of _ l2], rule exI[of _ g1]) (intro conjI r(2) n s r(5))
qed


lemma update_churn_probability_Inr:
  assumes "update_churn_probability c mc = Inr c'"
  shows "\<exists>(cp::real) (eg::real) (pinc::real).
      c' = c\<lparr>churn_probability :=
             min 0.8 (0.1 + (1 - satisfaction c) * 0.3 + (1 - loyalty c) * 0.2
                      + ((if cp > 0.7 then 0.1 else 0) + (if eg < 0.3 then 0.15 else 0))
                      + (if pinc > 0 then price_sensitivity c * pinc * 0.2 else 0))\<rparr>"
proof -
  obtain cp where 1: "dict_get_num mc ''competitive_pressure'' 0 = Inr cp"
    using assms by (cases "dict_get_num mc ''competitive_pressure'' 0")
      (simp_all only: update_churn_probability_def Let_def sum.case sum.distinct)
  obtain eg where 2: "dict_get_num mc ''economic_growth'' 0 = Inr eg"
    using assms by (cases "dict_get_num mc ''economic_growth'' 0")
      (simp_all only: update_churn_probability_def Let_def 1 sum.case sum.distinct)
  obtain pinc where 3: "dict_get_num mc ''price_increase'' 0 = Inr pinc"
    using assms by (cases "dict_get_num mc ''price_increase'' 0")
      (simp_all only: update_churn_probability_def Let_def 1 2 sum.case sum.distinct)
  have "c\<lparr>churn_probability :=
             min 0.8 (0.1 + (1 - satisfaction c) * 0.3 + (1 - loyalty c) * 0.2
                      + ((if cp > 0.7 then 0.1 else 0) + (if eg < 0.3 then 0.15 else 0))
                      + (if pinc > 0 then price_sensitivity c * pinc * 0.2 else 0))\<rparr> = c'"
    using assms by (simp only: update_churn_probability_def Let_def 1 2 3 sum.case sum.inject)
  then show ?thesis by blast
qed

lemma get_market_conditions_lookups:
  "dict_get_num (get_market_conditions ec) ''competitive_pressure'' 0 = Inr 0"
  "dict_get_num (get_market_conditions ec) ''economic_growth'' 0 = Inr 0"
  "dict_get_num (get_market_conditions ec) ''price_increase'' 0 = Inr 0"
  "dict_index_num (get_market_conditions ec) ''gdp_growth'' = Inr (gdp_growth ec)"
  "dict_index_num (get_market_conditions ec) ''tech_sector_performance'' = Inr (tech_sector_performance ec)"
  by (simp_all add: dict_get_num_def dict_index_num_def get_market_conditions_def)

lemma update_churn_probability_engine:
  "update_churn_probability c (get_market_conditions ec) =
     Inr (c\<lparr>churn_probability :=
            min 0.8 (0.25 + (1 - satisfaction c) * 0.3 + (1 - loyalty c) * 0.2)\<rparr>)"
  by (simp add: update_churn_probability_def get_market_conditions_lookups Let_def)

text \<open>
  Claim C2, as the code has it: \<^verbatim>\<open>update_churn_probability\<close> cuts the sum at 0.8 and
  has no lower cut, so the result is at most 0.8 for every customer and every conditions;
  it is at least 0 when satisfaction and loyalty are at most 1 and the price sensitivity
  is not negative. On the conditions that \<^verbatim>\<open>get_market_conditions\<close> builds for the
  population update the call returns, and bounds on satisfaction and loyalty suffice.
\<close>

theorem churn_probability_bounds:
  "(update_churn_probability c mc = Inr c' \<longrightarrow>
      churn_probability c' \<le> 0.8 \<and>
      (satisfaction c \<le> 1 \<and> loyalty c \<le> 1 \<and> 0 \<le> price_sensitivity c
         \<longrightarrow> 0 \<le> churn_probability c')) \<and>
   (\<exists>c''. update_churn_probability c (get_market_conditions ec) = Inr c'' \<and>
      churn_probability c'' \<le> 0.8 \<and>
      (satisfaction c \<le> 1 \<and> loyalty c \<le> 1 \<longrightarrow> 0 \<le> churn_probability c''))"
proof (intro conjI impI)
  have sel: "churn_probability (c\<lparr>churn_probability := v\<rparr>) = v" for v by simp
  have top: "(0::real) \<le> 0.8" by simp
  {
    assume a: "update_churn_probability c mc = Inr c'"
    then obtain cp :: real and eg :: real and pinc :: real where
      c': "c' = c\<lparr>churn_probability :=
               min 0.8 (0.1 + (1 - satisfaction c) * 0.3 + (1 - loyalty c) * 0.2
                        + ((if cp > 0.7 then 0.1 else 0) + (if eg < 0.3 then 0.15 else 0))
                        + (if pinc > 0 then price_sensitivity c * pinc * 0.2 else 0))\<rparr>"
      using update_churn_probability_Inr by blast
    show "churn_probability c' \<le> 0.8" unfolding c' sel by (rule min.cobounded1)
    assume r: "satisfaction c \<le> 1 \<and> loyalty c \<le> 1 \<and> 0 \<le> price_sensitivity c"
    have 1: "0 \<le> (1 - satisfaction c) * 0.3" "0 \<le> (1 - loyalty c) * 0.2" using r by simp_all
    have 2: "0 \<le> (if cp > 0.7 then 0.1 else 0) + (if eg < 0.3 then 0.15 else (0::real))" by simp
    have 3: "0 \<le> (if pinc > 0 then price_sensitivity c * pinc * 0.2 else 0)"
      using r by simp
    have "0 \<le> 0.1 + (1 - satisfaction c) * 0.3 + (1 - loyalty c) * 0.2
                        + ((if cp > 0.7 then 0.1 else 0) + (if eg < 0.3 then 0.15 else 0))
                        + (if pinc > 0 then price_sensitivity c * pinc * 0.2 else 0)"
      using 1 2 3 by linarith
    then show "0 \<le> churn_probability c'" unfolding c' sel using top by (rule min.boundedI[rotated])
  }
  let ?x = "0.25 + (1 - satisfaction c) * 0.3 + (1 - loyalty c) * 0.2"
  have e: "update_churn_probability c (get_market_conditions ec) =
      Inr (c\<lparr>churn_probability := min 0.8 ?x\<rparr>)"
    by (rule update_churn_probability_engine)
  have lo: "satisfaction c \<le> 1 \<and> loyalty c \<le> 1 \<longrightarrow>
      0 \<le> churn_probability (c\<lparr>churn_probability := min 0.8 ?x\<rparr>)"
  proof
    assume r: "satisfaction c \<le> 1 \<and> loyalty c \<le> 1"
    have q: "(0::real) \<le> 0.25" by simp
    have "0 \<le> (1 - satisfaction c) * 0.3" "0 \<le> (1 - loyalty c) * 0.2" using r by simp_all
    then have "0 \<le> ?x" using q by (intro add_nonneg_nonneg)
    then show "0 \<le> churn_probability (c\<lparr>churn_probability := min 0.8 ?x\<rparr>)"
      unfolding sel using top by (rule min.boundedI[rotated])
  qed
  have hi: "churn_probability (c\<lparr>churn_probability := min 0.8 ?x\<rparr>) \<le> 0.8"
    unfolding sel by (rule min.cobounded1)
  show "\<exists>c''. update_churn_probability c (get_market_conditions ec) = Inr c'' \<and>
      churn_probability c'' \<le> 0.8 \<and>
      (satisfaction c \<le> 1 \<and> loyalty c \<le> 1 \<longrightarrow> 0 \<le> churn_probability c'')"
    using e lo hi by blast
qed

theorem churn_probability_bounds_witness:
  "update_churn_probability fixture_customer
      [(''competitive_pressure'', Num 0.9), (''price_increase'', Num 0.1)]
     = Inr (fixture_customer\<lparr>churn_probability := 0.65\<rparr>) \<and>
   0 \<le> churn_probability (fixture_customer\<lparr>churn_probability := 0.65\<rparr>) \<and>
   churn_probability (fixture_customer\<lparr>churn_probability := 0.65\<rparr>) \<le> 0.8"
proof -
  let ?mc = "[(''competitive_pressure'', Num 0.9), (''price_increase'', Num 0.1)]"
  let ?c' = "fixture_customer\<lparr>churn_probability := 0.65\<rparr>"
  have u: "update_churn_probability fixture_customer ?mc = Inr ?c'"
    by (simp add: update_churn_probability_def dict_get_num_def fixture_customer_def Let_def)
  have r: "satisfaction fixture_customer \<le> 1 \<and> loyalty fixture_customer \<le> 1 \<and>
      0 \<le> price_sensitivity fixture_customer"
    by (simp add: fixture_customer_def)
  from churn_probability_bounds [of fixture_customer ?mc ?c'] u r
  have "churn_probability ?c' \<le> 0.8" "0 \<le> churn_probability ?c'" by blast+
  then show ?thesis using u by blast
qed

text \<open>
  Claim C2 as stated fails: a customer with satisfaction 1, loyalty 1 and price
  sensitivity -1, under conditions that flag a price increase of 5, gets the churn
  probability -0.9.
\<close>

theorem churn_probability_bounds_counterexample:
  "satisfaction fixture_odd_customer = 1 \<and> loyalty fixture_odd_customer = 1 \<and>
   (\<exists>c'. update_churn_probability fixture_odd_customer
            [(''economic_growth'', Num 0.5), (''price_increase'', Num 5)] = Inr c' \<and>
         churn_probability c' = - 0.9 \<and> churn_probability c' < 0)"
  by (simp add: update_churn_probability_def dict_get_num_def fixture_odd_customer_def
      fixture_customer_def Let_def)

lemma customer_loop_engine:
  "\<exists>updated churned opps g'.
     customer_loop cs (get_market_conditions ec) g = Inr (updated, churned, opps, g')"
proof (induction cs arbitrary: g)
  case Nil
  then show ?case by simp
next
  case (Cons c cs)
  obtain u ch ops g' where
    "customer_loop cs (get_market_conditions ec) (snd (random_random g)) = Inr (u, ch, ops, g')"
    using Cons.IH by blast
  then show ?case
    by (simp add: update_churn_probability_engine case_prod_beta Let_def)
qed

lemma random_event_unit: "\<exists>evs g'. random_event p t e i lo hi g = (evs, g')"
  by (simp add: random_event_def case_prod_beta)

lemma generate_market_events_engine:
  "\<exists>events g'. generate_market_events (get_market_conditions ec) g = Inr (events, g')"
  by (simp add: generate_market_events_def get_market_conditions_lookups Let_def case_prod_beta)

lemma update_competitive_landscape_engine:
  "\<exists>l2 g'. update_competitive_landscape l (get_market_conditions ec) g = Inr (l2, g')"
proof (cases "l = []")
  case True
  then show ?thesis
    by (simp add: update_competitive_landscape_def get_market_conditions_lookups
        normalize_shares_def)
next
  case False
  obtain l1 g1 where p: "perturb_shares (gdp_growth ec) l g = (l1, g1)" by fastforce
  have c: "map fst l1 = map fst l" "\<forall>s \<in> set (shares l1). 0.01 \<le> s \<and> s \<le> 0.8"
    using perturb_shares_clamped[OF p] by simp_all
  have ne: "l1 \<noteq> []" using c(1) False by auto
  have lo: "\<forall>s \<in> set (shares l1). 0.01 \<le> s" using c(2) by simp
  obtain l2 where "normalize_shares l1 = Inr l2"
    using normalize_shares_ok[OF ne lo] by blast
  then show ?thesis
    by (simp add: update_competitive_landscape_def get_market_conditions_lookups p)
qed

lemma py_truediv_max: "py_truediv a (max (Suc 0) b) = Inr (real a / real (max (Suc 0) b))"
  by (simp add: py_truediv_def)

lemma simulate_market_dynamics_total:
  "\<exists>res self' g'. simulate_market_dynamics self g = Inr (res, self', g')"
proof -
  obtain cycle g1 where a: "advance_cycle (economic_cycle self) g = (cycle, g1)" by fastforce
  obtain u ch ops g2 where
    l: "customer_loop (virtual_customers self) (get_market_conditions cycle) g1 = Inr (u, ch, ops, g2)"
    using customer_loop_engine by blast
  obtain evs g3 where e: "generate_market_events (get_market_conditions cycle) g2 = Inr (evs, g3)"
    using generate_market_events_engine by blast
  obtain l2 g4 where
    c: "update_competitive_landscape (competitive_landscape self) (get_market_conditions cycle) g3
          = Inr (l2, g4)"
    using update_competitive_landscape_engine by blast
  show ?thesis
    by (simp add: simulate_market_dynamics_def a l e c py_truediv_max Let_def)
qed

lemma simulate_market_dynamics_metrics:
  assumes "simulate_market_dynamics self g = Inr (res, self', g')"
  shows "avg_satisfaction (res_customer_metrics res) = np_mean (map satisfaction (virtual_customers self'))"
    "avg_loyalty (res_customer_metrics res) = np_mean (map loyalty (virtual_customers self'))"
    "total_customers (res_customer_metrics res) = length (virtual_customers self')"
    "churn_rate (res_customer_metrics res) =
       real (churned_customers (res_customer_metrics res)) /
       real (max 1 (total_customers (res_customer_metrics res)
                    + churned_customers (res_customer_metrics res)))"
  using assms
  by (auto simp: simulate_market_dynamics_def py_truediv_def Let_def
      split: prod.splits sum.splits if_splits)

lemma simulate_market_dynamics_population:
  assumes "simulate_market_dynamics self g = Inr (res, self', g')"
    and "advance_cycle (economic_cycle self) g = (cycle, g1)"
    and "customer_loop (virtual_customers self) (get_market_conditions cycle) g1
           = Inr (u, ch, ops, g2)"
  shows "virtual_customers self' = remove_churned u ch"
    "churned_customers (res_customer_metrics res) = length ch"
  using assms
  by (auto simp: simulate_market_dynamics_def Let_def split: prod.splits sum.splits)

lemma simulate_market_dynamics_empty:
  assumes "simulate_market_dynamics self g = Inr (res, self', g')"
    and "virtual_customers self = []"
  shows "virtual_customers self' = []"
    "churned_customers (res_customer_metrics res) = 0"
proof -
  obtain cycle g1 where a: "advance_cycle (economic_cycle self) g = (cycle, g1)" by fastforce
  have l: "customer_loop (virtual_customers self) (get_market_conditions cycle) g1
      = Inr ([], [], [], g1)"
    by (simp add: assms(2))
  show "virtual_customers self' = []" "churned_customers (res_customer_metrics res) = 0"
    using simulate_market_dynamics_population[OF assms(1) a l]
    by (simp_all add: remove_churned_def)
qed

text \<open>
  Claim C3 fails on the code: a market whose last customer churns in the tick returns the
  churn rate 1 and NaN for both averages, and the next tick, on the empty population,
  returns the churn rate 0 and NaN again. Only the churn rate is guarded (by
  \<^verbatim>\<open>max(1, ...)\<close>); the averages are \<^verbatim>\<open>np.mean\<close> of an empty list.
\<close>

theorem empty_population_average_is_nan:
  "\<exists>res self' g'.
     simulate_market_dynamics fixture_market (\<lambda>_. 0) = Inr (res, self', g') \<and>
     virtual_customers self' = [] \<and>
     churned_customers (res_customer_metrics res) = 1 \<and>
     churn_rate (res_customer_metrics res) = 1 \<and>
     avg_satisfaction (res_customer_metrics res) = NaN \<and>
     avg_loyalty (res_customer_metrics res) = NaN \<and>
     (\<exists>res2 self2 g2.
        simulate_market_dynamics self' g' = Inr (res2, self2, g2) \<and>
        total_customers (res_customer_metrics res2) = 0 \<and>
        churn_rate (res_customer_metrics res2) = 0 \<and>
        avg_satisfaction (res_customer_metrics res2) = NaN \<and>
        avg_loyalty (res_customer_metrics res2) = NaN)"
proof -
  let ?z = "\<lambda>_::nat. 0::real"
  obtain res self' g' where s: "simulate_market_dynamics fixture_market ?z = Inr (res, self', g')"
    using simulate_market_dynamics_total by blast
  obtain cycle where a: "advance_cycle (economic_cycle fixture_market) ?z = (cycle, ?z)"
    using advance_cycle_zero(2)[of "economic_cycle fixture_market"] by (metis prod.collapse)
  have l: "customer_loop (virtual_customers fixture_market) (get_market_conditions cycle) ?z
      = Inr ([fixture_customer\<lparr>churn_probability := 0.54\<rparr>],
             [fixture_customer\<lparr>churn_probability := 0.54\<rparr>], [], ?z)"
    by (simp add: fixture_market_def update_churn_probability_engine random_random_def
        take_src_def fixture_customer_def)
  have p: "virtual_customers self' = []" "churned_customers (res_customer_metrics res) = 1"
    using simulate_market_dynamics_population[OF s a l] by (simp_all add: remove_churned_def)
  note m = simulate_market_dynamics_metrics[OF s]
  have r: "churn_rate (res_customer_metrics res) = 1"
    "avg_satisfaction (res_customer_metrics res) = NaN"
    "avg_loyalty (res_customer_metrics res) = NaN"
    using m p by (simp_all add: np_mean_def)
  obtain res2 self2 g2 where s2: "simulate_market_dynamics self' g' = Inr (res2, self2, g2)"
    using simulate_market_dynamics_total by blast
  have p2: "virtual_customers self2 = []" "churned_customers (res_customer_metrics res2) = 0"
    using simulate_market_dynamics_empty[OF s2 p(1)] by simp_all
  note m2 = simulate_market_dynamics_metrics[OF s2]
  have r2: "total_customers (res_customer_metrics res2) = 0"
    "churn_rate (res_customer_metrics res2) = 0"
    "avg_satisfaction (res_customer_metrics res2) = NaN"
    "avg_loyalty (res_customer_metrics res2) = NaN"
    using m2 p2 by (simp_all add: np_mean_def)
  show ?thesis using s p r s2 r2 by blast
qed

section \<open>Scheduler: proofs\<close>

text \<open>
  Claim C8: when the running flag is false, \<^verbatim>\<open>advance_day\<close> returns the dict whose
  status is \<open>simulation_not_running\<close>, and the simulator (day counter, snapshots,
  metrics, market state, collaborators) and the random generator are unchanged.
\<close>

theorem advance_day_not_running:
  "\<not> is_running self \<Longrightarrow>
   advance_day daily_steps self g = Inr (Status ''simulation_not_running'', self, g)"
  by (simp add: advance_day_def)

theorem advance_day_not_running_witness:
  "\<not> is_running fixture_scheduler \<and>
   advance_day (\<lambda>res s g. (nat (simulation_day s), s, g)) fixture_scheduler (\<lambda>_. 0)
     = Inr (Status ''simulation_not_running'', fixture_scheduler, \<lambda>_. 0) \<and>
   simulation_day fixture_scheduler = 0"
proof -
  have h: "\<not> is_running fixture_scheduler" by (simp add: fixture_scheduler_def)
  show ?thesis
    using h advance_day_not_running [OF h, of "\<lambda>res s g. (nat (simulation_day s), s, g)" "\<lambda>_. 0"]
    by (simp add: fixture_scheduler_def)
qed

end
